theory Spec2Isabelle
  imports Complex_Main
begin

section \<open>Data model\<close>

text \<open>
  The engine of \<^verbatim>\<open>guess_lexer.py\<close>: the class \<^verbatim>\<open>GuessLexer\<close> with its three rule tables,
  the scorer \<^verbatim>\<open>_score_language\<close>, the framework stage \<^verbatim>\<open>_detect_framework\<close>, the
  extension hint \<^verbatim>\<open>_get_extension_hint\<close> and the entry point \<^verbatim>\<open>analyze_code\<close>.

  Python's \<^verbatim>\<open>float\<close> is modelled by \<^typ>\<open>real\<close>: the scores are small multiples of one
  tenth, far away from overflow, and rounding is not modelled. A \<^verbatim>\<open>str\<close> is a
  \<^typ>\<open>string\<close>, read as a sequence of code points below 256. A \<^verbatim>\<open>dict\<close> is an
  association list in insertion order, since \<^verbatim>\<open>max\<close> over the keys of a dict breaks ties
  by that order.
\<close>

datatype error = ReError

record DetectionResult =
  language :: string
  confidence :: real
  framework :: "string option"
  evidence :: "string list"

text \<open>
  One entry of a rule table is a dict with the keys \<^verbatim>\<open>keywords\<close> (the field \<open>key_words\<close>), \<^verbatim>\<open>patterns\<close> and
  \<^verbatim>\<open>weight\<close>; a language entry has \<^verbatim>\<open>anti_patterns\<close> as well (read with
  \<^verbatim>\<open>patterns.get('anti_patterns', [])\<close>, so that an absent key and an empty list are the
  same), a framework entry has \<^verbatim>\<open>language\<close>, the language it belongs to, here the
  field \<open>fw_language\<close>.
\<close>

record rules =
  key_words :: "string list"
  patterns :: "string list"
  weight :: real

record language_rules = rules +
  anti_patterns :: "string list"

record framework_rules = rules +
  fw_language :: string

record GuessLexer =
  language_patterns :: "(string \<times> language_rules) list"
  framework_patterns :: "(string \<times> framework_rules) list"
  file_extensions :: "(string \<times> string list) list"

text \<open>
  \<^verbatim>\<open>re.findall(pattern, code, re.MULTILINE | re.IGNORECASE)\<close> belongs to Python's
  library, not to this program, and the program reads only the length of the list it
  returns. The library is a parameter of the model: for a pattern and a text it gives the
  number of non-overlapping matches, or the error \<^verbatim>\<open>re.error\<close> that compiling a
  malformed pattern raises.
\<close>

type_synonym re_findall = "string \<Rightarrow> string \<Rightarrow> error + nat"

type_synonym 'v dict = "(string \<times> 'v) list"

section \<open>Strings and dicts of the Python library\<close>

abbreviation (input) bs :: string where
  "bs \<equiv> [CHR 0x5C]"

abbreviation (input) sq :: string where
  "sq \<equiv> [CHR 0x27]"

definition py_isspace :: "char \<Rightarrow> bool" where
  "py_isspace c = ((of_char c :: nat) \<in> {9, 10, 11, 12, 13, 28, 29, 30, 31, 32, 133, 160})"

definition py_strip :: "string \<Rightarrow> string" where
  "py_strip s = rev (dropWhile py_isspace (rev (dropWhile py_isspace s)))"

definition py_lower_char :: "char \<Rightarrow> char" where
  "py_lower_char c =
     (let n = (of_char c :: nat)
      in if (65 \<le> n \<and> n \<le> 90) \<or> (192 \<le> n \<and> n \<le> 222 \<and> n \<noteq> 215)
         then char_of (n + 32) else c)"

definition py_lower :: "string \<Rightarrow> string" where
  "py_lower s = map py_lower_char s"

fun startswith :: "string \<Rightarrow> string \<Rightarrow> bool" where
  "startswith s [] = True"
| "startswith [] (p # ps) = False"
| "startswith (c # cs) (p # ps) = (c = p \<and> startswith cs ps)"

text \<open>\<open>py_in sub s\<close> is Python's \<^verbatim>\<open>sub in s\<close> on strings.\<close>

fun py_in :: "string \<Rightarrow> string \<Rightarrow> bool" where
  "py_in sub [] = (sub = [])"
| "py_in sub (c # cs) = (startswith (c # cs) sub \<or> py_in sub cs)"

fun py_str :: "nat \<Rightarrow> string" where
  "py_str n = (if n < 10 then [char_of (48 + n)] else py_str (n div 10) @ [char_of (48 + n mod 10)])"

declare py_str.simps [simp del]

text \<open>\<^verbatim>\<open>s.rfind(c)\<close> for a one-character \<open>c\<close>: the last index of \<open>c\<close>, or \<open>-1\<close>.\<close>

definition rfind :: "string \<Rightarrow> char \<Rightarrow> int" where
  "rfind s c = (case filter (\<lambda>i. s ! i = c) (rev [0..<length s]) of [] \<Rightarrow> - 1 | i # _ \<Rightarrow> int i)"

text \<open>
  \<^verbatim>\<open>os.path.splitext\<close> of \<^verbatim>\<open>posixpath\<close>: the extension starts at the last dot after
  the last slash, unless only dots stand between that slash and the dot.
\<close>

definition splitext :: "string \<Rightarrow> string \<times> string" where
  "splitext p =
     (let sepIndex = rfind p (CHR ''/''); dotIndex = rfind p (CHR ''.'')
      in if dotIndex > sepIndex
            \<and> list_ex (\<lambda>i. p ! i \<noteq> CHR ''.'') [nat (sepIndex + 1)..<nat dotIndex]
         then (take (nat dotIndex) p, drop (nat dotIndex) p)
         else (p, []))"

text \<open>\<^verbatim>\<open>d[k] = v\<close>: the value of a present key is replaced in place, a new key goes last.\<close>

fun dict_set :: "'v dict \<Rightarrow> string \<Rightarrow> 'v \<Rightarrow> 'v dict" where
  "dict_set [] k v = [(k, v)]"
| "dict_set ((k', v') # d) k v = (if k' = k then (k, v) # d else (k', v') # dict_set d k v)"

text \<open>\<^verbatim>\<open>d[k]\<close> on a \<^verbatim>\<open>defaultdict(list)\<close>: a missing key reads as the empty list.\<close>

definition dd_get :: "string list dict \<Rightarrow> string \<Rightarrow> string list" where
  "dd_get d k = (case map_of d k of None \<Rightarrow> [] | Some v \<Rightarrow> v)"

text \<open>
  \<^verbatim>\<open>max(d.keys(), key=lambda x: d[x])\<close> on a non-empty dict, with the value of the key it
  returns: the first item is the candidate, and a later item replaces it only when its
  value is strictly greater, so of several maximal keys the first in insertion order wins.
\<close>

fun max_item :: "string \<times> real \<Rightarrow> real dict \<Rightarrow> string \<times> real" where
  "max_item best [] = best"
| "max_item best (x # xs) = max_item (if snd x > snd best then x else best) xs"

section \<open>The rule tables\<close>

definition initialize_patterns :: "(string \<times> language_rules) list" where
  \<open>initialize_patterns = [
    (''python'', \<lparr>
      key_words = [''def'',
                   ''class'',
                   ''import'',
                   ''from'',
                   ''if __name__'',
                   ''elif'',
                   ''lambda'',
                   ''yield''],
      patterns = [''^'' @ bs @ ''s*def'' @ bs @ ''s+'' @ bs @ ''w+'' @ bs @ ''s*'' @ bs @ ''('',
                  ''^'' @ bs @ ''s*class'' @ bs @ ''s+'' @ bs @ ''w+'',
                  ''^'' @ bs @ ''s*import'' @ bs @ ''s+'' @ bs @ ''w+'',
                  ''^'' @ bs @ ''s*from'' @ bs @ ''s+'' @ bs @ ''w+'' @ bs @ ''s+import'',
                  ''if'' @ bs @ ''s+__name__'' @ bs @ ''s*=='' @ bs @ ''s*['' @ bs @ sq @ ''"]__main__['' @ bs @ sq @ ''"]'',
                  ''^'' @ bs @ ''s*#.*python'',
                  ''print'' @ bs @ ''s*'' @ bs @ ''('',
                  ''^'' @ bs @ ''s*@'' @ bs @ ''w+''],
      weight = 1.0,
      anti_patterns = [''console'' @ bs @ ''.log'',
                       ''function'' @ bs @ ''s*'' @ bs @ ''('',
                       ''var'' @ bs @ ''s+'' @ bs @ ''w+'']\<rparr>),
    (''javascript'', \<lparr>
      key_words = [''function'',
                   ''var'',
                   ''let'',
                   ''const'',
                   ''console.log'',
                   ''require'',
                   ''module.exports''],
      patterns = [''function'' @ bs @ ''s+'' @ bs @ ''w+'' @ bs @ ''s*'' @ bs @ ''('',
                  ''console'' @ bs @ ''.log'' @ bs @ ''s*'' @ bs @ ''('',
                  ''var'' @ bs @ ''s+'' @ bs @ ''w+'' @ bs @ ''s*='',
                  ''let'' @ bs @ ''s+'' @ bs @ ''w+'' @ bs @ ''s*='',
                  ''const'' @ bs @ ''s+'' @ bs @ ''w+'' @ bs @ ''s*='',
                  ''require'' @ bs @ ''s*'' @ bs @ ''(['' @ bs @ sq @ ''"]'',
                  ''module'' @ bs @ ''.exports'',
                  ''=>'',
                  bs @ ''.then'' @ bs @ ''s*'' @ bs @ ''('',
                  ''async'' @ bs @ ''s+function''],
      weight = 1.0,
      anti_patterns = [''def'' @ bs @ ''s+'' @ bs @ ''w+'',
                       ''class'' @ bs @ ''s+'' @ bs @ ''w+.*:'',
                       ''import'' @ bs @ ''s+'' @ bs @ ''w+'']\<rparr>),
    (''typescript'', \<lparr>
      key_words = [''interface'',
                   ''type'',
                   ''enum'',
                   ''namespace'',
                   ''declare''],
      patterns = [''interface'' @ bs @ ''s+'' @ bs @ ''w+'',
                  ''type'' @ bs @ ''s+'' @ bs @ ''w+'' @ bs @ ''s*='',
                  ''enum'' @ bs @ ''s+'' @ bs @ ''w+'',
                  '':'' @ bs @ ''s*'' @ bs @ ''w+('' @ bs @ ''['' @ bs @ ''])?('' @ bs @ ''s*'' @ bs @ ''|'' @ bs @ ''s*'' @ bs @ ''w+)*'' @ bs @ ''s*[=;]'',
                  ''<'' @ bs @ ''w+>'',
                  ''declare'' @ bs @ ''s+'',
                  ''namespace'' @ bs @ ''s+'' @ bs @ ''w+''],
      weight = 1.2,
      anti_patterns = []\<rparr>),
    (''java'', \<lparr>
      key_words = [''public class'',
                   ''private'',
                   ''protected'',
                   ''static'',
                   ''void'',
                   ''import java''],
      patterns = [''public'' @ bs @ ''s+class'' @ bs @ ''s+'' @ bs @ ''w+'',
                  ''private'' @ bs @ ''s+'' @ bs @ ''w+'' @ bs @ ''s+'' @ bs @ ''w+'',
                  ''protected'' @ bs @ ''s+'' @ bs @ ''w+'' @ bs @ ''s+'' @ bs @ ''w+'',
                  ''public'' @ bs @ ''s+static'' @ bs @ ''s+void'' @ bs @ ''s+main'',
                  ''import'' @ bs @ ''s+java'' @ bs @ ''.'',
                  ''@'' @ bs @ ''w+'' @ bs @ ''s*'' @ bs @ ''n'' @ bs @ ''s*public'',
                  ''System'' @ bs @ ''.out'' @ bs @ ''.println''],
      weight = 1.0,
      anti_patterns = [''def'' @ bs @ ''s+'' @ bs @ ''w+'',
                       ''function'' @ bs @ ''s+'' @ bs @ ''w+'']\<rparr>),
    (''csharp'', \<lparr>
      key_words = [''using'',
                   ''namespace'',
                   ''class'',
                   ''static void Main'',
                   ''public'',
                   ''private''],
      patterns = [''using'' @ bs @ ''s+'' @ bs @ ''w+;'',
                  ''namespace'' @ bs @ ''s+'' @ bs @ ''w+'',
                  ''public'' @ bs @ ''s+class'' @ bs @ ''s+'' @ bs @ ''w+'',
                  ''static'' @ bs @ ''s+void'' @ bs @ ''s+Main'',
                  ''Console'' @ bs @ ''.WriteLine'',
                  bs @ ''[assembly:'',
                  ''#region''],
      weight = 1.0,
      anti_patterns = [''import'' @ bs @ ''s+'',
                       ''def'' @ bs @ ''s+'' @ bs @ ''w+'']\<rparr>),
    (''cpp'', \<lparr>
      key_words = [''#include'',
                   ''using namespace'',
                   ''int main'',
                   ''std::'',
                   ''class''],
      patterns = [''#include'' @ bs @ ''s*<'' @ bs @ ''w+>'',
                  ''using'' @ bs @ ''s+namespace'' @ bs @ ''s+std'',
                  ''int'' @ bs @ ''s+main'' @ bs @ ''s*'' @ bs @ ''('',
                  ''std::'' @ bs @ ''w+'',
                  ''cout'' @ bs @ ''s*<<'',
                  ''cin'' @ bs @ ''s*>>'',
                  ''class'' @ bs @ ''s+'' @ bs @ ''w+'' @ bs @ ''s*{''],
      weight = 1.0,
      anti_patterns = [''def'' @ bs @ ''s+'' @ bs @ ''w+'',
                       ''import'' @ bs @ ''s+'']\<rparr>),
    (''c'', \<lparr>
      key_words = [''#include'',
                   ''int main'',
                   ''printf'',
                   ''scanf'',
                   ''malloc''],
      patterns = [''#include'' @ bs @ ''s*<'' @ bs @ ''w+'' @ bs @ ''.h>'',
                  ''int'' @ bs @ ''s+main'' @ bs @ ''s*'' @ bs @ ''('',
                  ''printf'' @ bs @ ''s*'' @ bs @ ''('',
                  ''scanf'' @ bs @ ''s*'' @ bs @ ''('',
                  ''malloc'' @ bs @ ''s*'' @ bs @ ''('',
                  ''free'' @ bs @ ''s*'' @ bs @ ''(''],
      weight = 1.0,
      anti_patterns = [''class'' @ bs @ ''s+'' @ bs @ ''w+'',
                       ''using'' @ bs @ ''s+namespace'',
                       ''def'' @ bs @ ''s+'' @ bs @ ''w+'']\<rparr>),
    (''go'', \<lparr>
      key_words = [''package'',
                   ''import'',
                   ''func'',
                   ''var'',
                   ''const'',
                   ''type''],
      patterns = [''package'' @ bs @ ''s+'' @ bs @ ''w+'',
                  ''import'' @ bs @ ''s*'' @ bs @ ''('',
                  ''func'' @ bs @ ''s+'' @ bs @ ''w+'' @ bs @ ''s*'' @ bs @ ''('',
                  ''func'' @ bs @ ''s+main'' @ bs @ ''s*'' @ bs @ ''('' @ bs @ ''s*'' @ bs @ '')'',
                  ''fmt'' @ bs @ ''.Print'',
                  '':='',
                  ''go'' @ bs @ ''s+'' @ bs @ ''w+'' @ bs @ ''(''],
      weight = 1.0,
      anti_patterns = [''def'' @ bs @ ''s+'' @ bs @ ''w+'',
                       ''class'' @ bs @ ''s+'' @ bs @ ''w+'']\<rparr>),
    (''rust'', \<lparr>
      key_words = [''fn'',
                   ''let'',
                   ''mut'',
                   ''impl'',
                   ''trait'',
                   ''use''],
      patterns = [''fn'' @ bs @ ''s+'' @ bs @ ''w+'' @ bs @ ''s*'' @ bs @ ''('',
                  ''let'' @ bs @ ''s+'' @ bs @ ''w+'' @ bs @ ''s*='',
                  ''let'' @ bs @ ''s+mut'' @ bs @ ''s+'' @ bs @ ''w+'',
                  ''impl'' @ bs @ ''s+'' @ bs @ ''w+'',
                  ''trait'' @ bs @ ''s+'' @ bs @ ''w+'',
                  ''use'' @ bs @ ''s+'' @ bs @ ''w+::'',
                  ''println!'' @ bs @ ''s*'' @ bs @ ''('',
                  ''#'' @ bs @ ''[derive'' @ bs @ ''(''],
      weight = 1.0,
      anti_patterns = [''def'' @ bs @ ''s+'' @ bs @ ''w+'',
                       ''function'' @ bs @ ''s+'' @ bs @ ''w+'',
                       ''import'' @ bs @ ''s+['' @ bs @ sq @ ''"]package:'',
                       ''class'' @ bs @ ''s+'' @ bs @ ''w+'' @ bs @ ''s+extends'',
                       ''StatelessWidget'',
                       ''StatefulWidget'']\<rparr>),
    (''ruby'', \<lparr>
      key_words = [''def'',
                   ''class'',
                   ''end'',
                   ''require'',
                   ''puts'',
                   ''attr_accessor''],
      patterns = [''def'' @ bs @ ''s+'' @ bs @ ''w+'',
                  ''class'' @ bs @ ''s+'' @ bs @ ''w+'',
                  ''end'' @ bs @ ''s*$'',
                  ''require'' @ bs @ ''s+['' @ bs @ sq @ ''"]'',
                  ''puts'' @ bs @ ''s+'',
                  ''attr_accessor'' @ bs @ ''s+'',
                  ''@'' @ bs @ ''w+'',
                  ''=>'' @ bs @ ''s*''],
      weight = 1.0,
      anti_patterns = [''def'' @ bs @ ''s+'' @ bs @ ''w+'' @ bs @ ''s*'' @ bs @ ''(.*'' @ bs @ ''):'',
                       ''import'' @ bs @ ''s+'']\<rparr>),
    (''php'', \<lparr>
      key_words = [''<?php'',
                   ''function'',
                   ''class'',
                   ''echo'',
                   ''$'',
                   ''require_once''],
      patterns = [''<'' @ bs @ ''?php'',
                  ''function'' @ bs @ ''s+'' @ bs @ ''w+'' @ bs @ ''s*'' @ bs @ ''('',
                  ''class'' @ bs @ ''s+'' @ bs @ ''w+'',
                  ''echo'' @ bs @ ''s+'',
                  bs @ ''$'' @ bs @ ''w+'',
                  ''require_once'' @ bs @ ''s+'',
                  ''->'' @ bs @ ''w+'',
                  ''public'' @ bs @ ''s+function''],
      weight = 1.0,
      anti_patterns = [''def'' @ bs @ ''s+'' @ bs @ ''w+'',
                       ''import'' @ bs @ ''s+'']\<rparr>),
    (''swift'', \<lparr>
      key_words = [''func'',
                   ''var'',
                   ''let'',
                   ''import'',
                   ''class'',
                   ''struct''],
      patterns = [''func'' @ bs @ ''s+'' @ bs @ ''w+'' @ bs @ ''s*'' @ bs @ ''('',
                  ''var'' @ bs @ ''s+'' @ bs @ ''w+'' @ bs @ ''s*:'',
                  ''let'' @ bs @ ''s+'' @ bs @ ''w+'' @ bs @ ''s*='',
                  ''import'' @ bs @ ''s+'' @ bs @ ''w+'',
                  ''class'' @ bs @ ''s+'' @ bs @ ''w+'' @ bs @ ''s*:'',
                  ''struct'' @ bs @ ''s+'' @ bs @ ''w+'',
                  ''print'' @ bs @ ''s*'' @ bs @ ''('',
                  ''@'' @ bs @ ''w+'' @ bs @ ''s*'' @ bs @ ''n''],
      weight = 1.0,
      anti_patterns = [''def'' @ bs @ ''s+'' @ bs @ ''w+'',
                       ''function'' @ bs @ ''s+'' @ bs @ ''w+'',
                       ''import'' @ bs @ ''s+['' @ bs @ sq @ ''"]package:'',
                       ''StatelessWidget'',
                       ''StatefulWidget'']\<rparr>),
    (''kotlin'', \<lparr>
      key_words = [''fun'',
                   ''val'',
                   ''var'',
                   ''class'',
                   ''object'',
                   ''package''],
      patterns = [''fun'' @ bs @ ''s+'' @ bs @ ''w+'' @ bs @ ''s*'' @ bs @ ''('',
                  ''val'' @ bs @ ''s+'' @ bs @ ''w+'' @ bs @ ''s*='',
                  ''var'' @ bs @ ''s+'' @ bs @ ''w+'' @ bs @ ''s*='',
                  ''class'' @ bs @ ''s+'' @ bs @ ''w+'',
                  ''object'' @ bs @ ''s+'' @ bs @ ''w+'',
                  ''package'' @ bs @ ''s+'' @ bs @ ''w+'',
                  ''println'' @ bs @ ''s*'' @ bs @ ''(''],
      weight = 1.0,
      anti_patterns = [''def'' @ bs @ ''s+'' @ bs @ ''w+'',
                       ''function'' @ bs @ ''s+'' @ bs @ ''w+'',
                       ''import'' @ bs @ ''s+['' @ bs @ sq @ ''"]package:'',
                       ''StatelessWidget'',
                       ''StatefulWidget'']\<rparr>),
    (''sql'', \<lparr>
      key_words = [''SELECT'',
                   ''FROM'',
                   ''WHERE'',
                   ''INSERT'',
                   ''UPDATE'',
                   ''DELETE'',
                   ''CREATE''],
      patterns = [''SELECT'' @ bs @ ''s+.*FROM'',
                  ''INSERT'' @ bs @ ''s+INTO'',
                  ''UPDATE'' @ bs @ ''s+'' @ bs @ ''w+'' @ bs @ ''s+SET'',
                  ''DELETE'' @ bs @ ''s+FROM'',
                  ''CREATE'' @ bs @ ''s+TABLE'',
                  ''ALTER'' @ bs @ ''s+TABLE'',
                  ''DROP'' @ bs @ ''s+TABLE'',
                  ''WHERE'' @ bs @ ''s+'' @ bs @ ''w+'' @ bs @ ''s*=''],
      weight = 1.0,
      anti_patterns = [''def'' @ bs @ ''s+'' @ bs @ ''w+'',
                       ''function'' @ bs @ ''s+'' @ bs @ ''w+'',
                       ''class'' @ bs @ ''s+'' @ bs @ ''w+'']\<rparr>),
    (''html'', \<lparr>
      key_words = [''<html>'',
                   ''<head>'',
                   ''<body>'',
                   ''<div>'',
                   ''<script>''],
      patterns = [''<!DOCTYPE'' @ bs @ ''s+html>'',
                  ''<html.*>'',
                  ''<head>'',
                  ''<body.*>'',
                  ''<div.*>'',
                  ''<script.*>'',
                  ''<link'' @ bs @ ''s+.*rel='',
                  ''<meta'' @ bs @ ''s+.*>''],
      weight = 1.0,
      anti_patterns = [''def'' @ bs @ ''s+'' @ bs @ ''w+'',
                       ''function'' @ bs @ ''s+'' @ bs @ ''w+(?!'' @ bs @ ''s*'' @ bs @ ''()'']\<rparr>),
    (''css'', \<lparr>
      key_words = [''{'',
                   ''}'',
                   '':'',
                   '';'',
                   ''@media'',
                   ''@import''],
      patterns = [bs @ ''w+'' @ bs @ ''s*'' @ bs @ ''{[^}]*'' @ bs @ ''}'',
                  ''@media'' @ bs @ ''s*'' @ bs @ ''('',
                  ''@import'' @ bs @ ''s+'',
                  ''#'' @ bs @ ''w+'' @ bs @ ''s*'' @ bs @ ''{'',
                  bs @ ''.'' @ bs @ ''w+'' @ bs @ ''s*'' @ bs @ ''{'',
                  '':'' @ bs @ ''w+'' @ bs @ ''s*'' @ bs @ ''{'',
                  bs @ ''w+:'' @ bs @ ''s*'' @ bs @ ''w+;''],
      weight = 1.0,
      anti_patterns = [''def'' @ bs @ ''s+'' @ bs @ ''w+'',
                       ''function'' @ bs @ ''s+'' @ bs @ ''w+'',
                       ''class'' @ bs @ ''s+'' @ bs @ ''w+(?!'' @ bs @ ''s*'' @ bs @ ''{)'']\<rparr>),
    (''dart'', \<lparr>
      key_words = [''void'',
                   ''main'',
                   ''class'',
                   ''import'',
                   ''library'',
                   ''part'',
                   ''abstract'',
                   ''extends'',
                   ''implements''],
      patterns = [''void'' @ bs @ ''s+main'' @ bs @ ''s*'' @ bs @ ''('' @ bs @ ''s*'' @ bs @ '')'',
                  ''import'' @ bs @ ''s+['' @ bs @ sq @ ''"]package:'',
                  ''import'' @ bs @ ''s+['' @ bs @ sq @ ''"]dart:'',
                  ''class'' @ bs @ ''s+'' @ bs @ ''w+'' @ bs @ ''s+extends'' @ bs @ ''s+'' @ bs @ ''w+'',
                  ''class'' @ bs @ ''s+'' @ bs @ ''w+'' @ bs @ ''s+implements'' @ bs @ ''s+'' @ bs @ ''w+'',
                  ''abstract'' @ bs @ ''s+class'' @ bs @ ''s+'' @ bs @ ''w+'',
                  ''library'' @ bs @ ''s+'' @ bs @ ''w+;'',
                  ''part'' @ bs @ ''s+of'' @ bs @ ''s+'' @ bs @ ''w+;'',
                  ''part'' @ bs @ ''s+['' @ bs @ sq @ ''"][^'' @ bs @ sq @ bs @ ''"]+'' @ bs @ ''.dart['' @ bs @ sq @ ''"];'',
                  ''@override'',
                  ''final'' @ bs @ ''s+'' @ bs @ ''w+'',
                  ''const'' @ bs @ ''s+'' @ bs @ ''w+'',
                  ''var'' @ bs @ ''s+'' @ bs @ ''w+'' @ bs @ ''s*='',
                  bs @ ''w+'' @ bs @ ''?'' @ bs @ ''s+'' @ bs @ ''w+'',
                  bs @ ''w+<'' @ bs @ ''w+>'',
                  ''List<'' @ bs @ ''w+>'',
                  ''Map<'' @ bs @ ''w+,'' @ bs @ ''s*'' @ bs @ ''w+>'',
                  ''Set<'' @ bs @ ''w+>'',
                  ''Future<'' @ bs @ ''w+>'',
                  ''Stream<'' @ bs @ ''w+>'',
                  ''async'' @ bs @ ''s*'' @ bs @ ''{'',
                  ''await'' @ bs @ ''s+'' @ bs @ ''w+'',
                  ''=>'' @ bs @ ''s*'' @ bs @ ''w+'',
                  ''print'' @ bs @ ''s*'' @ bs @ ''(''],
      weight = 1.0,
      anti_patterns = [''def'' @ bs @ ''s+'' @ bs @ ''w+'',
                       ''function'' @ bs @ ''s+'' @ bs @ ''w+'',
                       ''console'' @ bs @ ''.log'',
                       ''System'' @ bs @ ''.out'' @ bs @ ''.println'']\<rparr>)
  ]\<close>

definition initialize_framework_patterns :: "(string \<times> framework_rules) list" where
  \<open>initialize_framework_patterns = [
    (''react'', \<lparr>
      key_words = [''React'',
                   ''useState'',
                   ''useEffect'',
                   ''Component'',
                   ''jsx''],
      patterns = [''import'' @ bs @ ''s+.*from'' @ bs @ ''s+['' @ bs @ sq @ ''"]react['' @ bs @ sq @ ''"]'',
                  ''React'' @ bs @ ''.Component'',
                  ''useState'' @ bs @ ''s*'' @ bs @ ''('',
                  ''useEffect'' @ bs @ ''s*'' @ bs @ ''('',
                  ''jsx'',
                  ''className='',
                  ''<'' @ bs @ ''w+.*>.*</'' @ bs @ ''w+>'',
                  ''return'' @ bs @ ''s*'' @ bs @ ''(''],
      weight = 1.2,
      fw_language = ''javascript''\<rparr>),
    (''vue'', \<lparr>
      key_words = [''Vue'',
                   ''template'',
                   ''v-if'',
                   ''v-for''],
      patterns = [''import'' @ bs @ ''s+.*from'' @ bs @ ''s+['' @ bs @ sq @ ''"]vue['' @ bs @ sq @ ''"]'',
                  ''Vue'' @ bs @ ''.component'',
                  ''<template>'',
                  ''<script>'',
                  ''v-if='',
                  ''v-for='',
                  ''@click=''],
      weight = 1.2,
      fw_language = ''javascript''\<rparr>),
    (''angular'', \<lparr>
      key_words = [''@Component'',
                   ''@Injectable'',
                   ''@NgModule'',
                   ''Angular''],
      patterns = [''import'' @ bs @ ''s+.*from'' @ bs @ ''s+['' @ bs @ sq @ ''"]@angular'',
                  ''@Component'' @ bs @ ''s*'' @ bs @ ''('',
                  ''@Injectable'' @ bs @ ''s*'' @ bs @ ''('',
                  ''@NgModule'' @ bs @ ''s*'' @ bs @ ''('',
                  ''selector:'' @ bs @ ''s*['' @ bs @ sq @ ''"]'',
                  ''templateUrl:'' @ bs @ ''s*['' @ bs @ sq @ ''"]''],
      weight = 1.2,
      fw_language = ''typescript''\<rparr>),
    (''django'', \<lparr>
      key_words = [''django'',
                   ''models'',
                   ''HttpResponse'',
                   ''urlpatterns''],
      patterns = [''from'' @ bs @ ''s+django'',
                  ''import'' @ bs @ ''s+django'',
                  ''models'' @ bs @ ''.Model'',
                  ''HttpResponse'',
                  ''render'' @ bs @ ''s*'' @ bs @ ''('',
                  ''urlpatterns'' @ bs @ ''s*='',
                  ''@login_required''],
      weight = 1.2,
      fw_language = ''python''\<rparr>),
    (''flask'', \<lparr>
      key_words = [''Flask'',
                   ''@app.route'',
                   ''render_template''],
      patterns = [''from'' @ bs @ ''s+flask'',
                  ''import'' @ bs @ ''s+flask'',
                  ''Flask'' @ bs @ ''s*'' @ bs @ ''('',
                  ''@app'' @ bs @ ''.route'',
                  ''render_template'' @ bs @ ''s*'' @ bs @ ''('',
                  ''request'' @ bs @ ''.form''],
      weight = 1.2,
      fw_language = ''python''\<rparr>),
    (''fastapi'', \<lparr>
      key_words = [''FastAPI'',
                   ''Pydantic'',
                   ''BaseModel''],
      patterns = [''from'' @ bs @ ''s+fastapi'',
                  ''import'' @ bs @ ''s+fastapi'',
                  ''FastAPI'' @ bs @ ''s*'' @ bs @ ''('',
                  ''@app'' @ bs @ ''.(get|post|put|delete)'',
                  ''Pydantic'',
                  ''BaseModel''],
      weight = 1.2,
      fw_language = ''python''\<rparr>),
    (''express'', \<lparr>
      key_words = [''express'',
                   ''app.get'',
                   ''app.post'',
                   ''app.listen''],
      patterns = [''require'' @ bs @ ''s*'' @ bs @ ''(['' @ bs @ sq @ ''"]express['' @ bs @ sq @ ''"]'',
                  ''import'' @ bs @ ''s+.*from'' @ bs @ ''s+['' @ bs @ sq @ ''"]express['' @ bs @ sq @ ''"]'',
                  ''app'' @ bs @ ''.get'' @ bs @ ''s*'' @ bs @ ''('',
                  ''app'' @ bs @ ''.post'' @ bs @ ''s*'' @ bs @ ''('',
                  ''app'' @ bs @ ''.listen'' @ bs @ ''s*'' @ bs @ ''('',
                  ''express'' @ bs @ ''s*'' @ bs @ ''('' @ bs @ ''s*'' @ bs @ '')''],
      weight = 1.2,
      fw_language = ''javascript''\<rparr>),
    (''spring'', \<lparr>
      key_words = [''@RestController'',
                   ''@Service'',
                   ''@Autowired'',
                   ''springframework''],
      patterns = [''import'' @ bs @ ''s+org'' @ bs @ ''.springframework'',
                  ''@RestController'',
                  ''@Service'',
                  ''@Repository'',
                  ''@Autowired'',
                  ''@RequestMapping'',
                  ''@GetMapping''],
      weight = 1.2,
      fw_language = ''java''\<rparr>),
    (''flutter'', \<lparr>
      key_words = [''Flutter'',
                   ''StatelessWidget'',
                   ''StatefulWidget'',
                   ''Widget'',
                   ''build'',
                   ''MaterialApp'',
                   ''CupertinoApp'',
                   ''Scaffold'',
                   ''AppBar'',
                   ''Container'',
                   ''Column'',
                   ''Row'',
                   ''Text'',
                   ''ElevatedButton'',
                   ''FloatingActionButton'',
                   ''ListView'',
                   ''GridView'',
                   ''Stack'',
                   ''Positioned'',
                   ''Navigator'',
                   ''setState'',
                   ''initState'',
                   ''dispose'',
                   ''runApp'',
                   ''Theme'',
                   ''MediaQuery'',
                   ''StreamBuilder'',
                   ''FutureBuilder'',
                   ''AnimationController'',
                   ''GestureDetector'',
                   ''CrossAxisAlignment'',
                   ''MainAxisAlignment'',
                   ''Colors'',
                   ''Icons''],
      patterns = [''import'' @ bs @ ''s+['' @ bs @ sq @ ''"]package:flutter/'',
                  ''import'' @ bs @ ''s+['' @ bs @ sq @ ''"]package:flutter/material'' @ bs @ ''.dart['' @ bs @ sq @ ''"]'',
                  ''import'' @ bs @ ''s+['' @ bs @ sq @ ''"]package:flutter/cupertino'' @ bs @ ''.dart['' @ bs @ sq @ ''"]'',
                  ''import'' @ bs @ ''s+['' @ bs @ sq @ ''"]package:flutter/widgets'' @ bs @ ''.dart['' @ bs @ sq @ ''"]'',
                  ''class'' @ bs @ ''s+'' @ bs @ ''w+'' @ bs @ ''s+extends'' @ bs @ ''s+StatelessWidget'',
                  ''class'' @ bs @ ''s+'' @ bs @ ''w+'' @ bs @ ''s+extends'' @ bs @ ''s+StatefulWidget'',
                  ''class'' @ bs @ ''s+'' @ bs @ ''w+'' @ bs @ ''s+extends'' @ bs @ ''s+State<'' @ bs @ ''w+>'',
                  ''Widget'' @ bs @ ''s+build'' @ bs @ ''s*'' @ bs @ ''('',
                  ''@override'' @ bs @ ''s+Widget'' @ bs @ ''s+build'',
                  ''MaterialApp'' @ bs @ ''s*'' @ bs @ ''('',
                  ''CupertinoApp'' @ bs @ ''s*'' @ bs @ ''('',
                  ''Scaffold'' @ bs @ ''s*'' @ bs @ ''('',
                  ''AppBar'' @ bs @ ''s*'' @ bs @ ''('',
                  ''Container'' @ bs @ ''s*'' @ bs @ ''('',
                  ''Column'' @ bs @ ''s*'' @ bs @ ''('',
                  ''Row'' @ bs @ ''s*'' @ bs @ ''('',
                  ''Text'' @ bs @ ''s*'' @ bs @ ''('',
                  ''RaisedButton'' @ bs @ ''s*'' @ bs @ ''('',
                  ''ElevatedButton'' @ bs @ ''s*'' @ bs @ ''('',
                  ''TextButton'' @ bs @ ''s*'' @ bs @ ''('',
                  ''OutlinedButton'' @ bs @ ''s*'' @ bs @ ''('',
                  ''FloatingActionButton'' @ bs @ ''s*'' @ bs @ ''('',
                  ''ListView'' @ bs @ ''s*'' @ bs @ ''('',
                  ''GridView'' @ bs @ ''s*'' @ bs @ ''('',
                  ''Stack'' @ bs @ ''s*'' @ bs @ ''('',
                  ''Positioned'' @ bs @ ''s*'' @ bs @ ''('',
                  ''Padding'' @ bs @ ''s*'' @ bs @ ''('',
                  ''Margin'' @ bs @ ''s*'' @ bs @ ''('',
                  ''SizedBox'' @ bs @ ''s*'' @ bs @ ''('',
                  ''Expanded'' @ bs @ ''s*'' @ bs @ ''('',
                  ''Flexible'' @ bs @ ''s*'' @ bs @ ''('',
                  ''Navigator'' @ bs @ ''.'' @ bs @ ''w+'',
                  ''setState'' @ bs @ ''s*'' @ bs @ ''('',
                  ''initState'' @ bs @ ''s*'' @ bs @ ''('',
                  ''dispose'' @ bs @ ''s*'' @ bs @ ''('',
                  ''didChangeDependencies'' @ bs @ ''s*'' @ bs @ ''('',
                  ''runApp'' @ bs @ ''s*'' @ bs @ ''('',
                  ''MaterialPageRoute'' @ bs @ ''s*'' @ bs @ ''('',
                  ''CupertinoPageRoute'' @ bs @ ''s*'' @ bs @ ''('',
                  ''Theme'' @ bs @ ''.'' @ bs @ ''w+'',
                  ''MediaQuery'' @ bs @ ''.'' @ bs @ ''w+'',
                  ''ValueNotifier<'' @ bs @ ''w+>'',
                  ''ValueListenableBuilder<'' @ bs @ ''w+>'',
                  ''StreamBuilder<'' @ bs @ ''w+>'',
                  ''FutureBuilder<'' @ bs @ ''w+>'',
                  ''AnimationController'' @ bs @ ''s*'' @ bs @ ''('',
                  ''SingleTickerProviderStateMixin'',
                  ''TickerProviderStateMixin'',
                  ''GestureDetector'' @ bs @ ''s*'' @ bs @ ''('',
                  ''InkWell'' @ bs @ ''s*'' @ bs @ ''('',
                  ''onTap:'' @ bs @ ''s*'' @ bs @ ''('',
                  ''onPressed:'' @ bs @ ''s*'' @ bs @ ''('',
                  ''CrossAxisAlignment'' @ bs @ ''.'' @ bs @ ''w+'',
                  ''MainAxisAlignment'' @ bs @ ''.'' @ bs @ ''w+'',
                  ''TextAlign'' @ bs @ ''.'' @ bs @ ''w+'',
                  ''FontWeight'' @ bs @ ''.'' @ bs @ ''w+'',
                  ''Colors'' @ bs @ ''.'' @ bs @ ''w+'',
                  ''Icons'' @ bs @ ''.'' @ bs @ ''w+'',
                  ''EdgeInsets'' @ bs @ ''.'' @ bs @ ''w+'',
                  ''BorderRadius'' @ bs @ ''.'' @ bs @ ''w+'',
                  ''Decoration'' @ bs @ ''s*'' @ bs @ ''('',
                  ''BoxDecoration'' @ bs @ ''s*'' @ bs @ ''(''],
      weight = 1.3,
      fw_language = ''dart''\<rparr>)
  ]\<close>

definition initialize_extensions :: "(string \<times> string list) list" where
  \<open>initialize_extensions = [
    (''python'', [''.py'', ''.pyw'', ''.pyx'']),
    (''javascript'', [''.js'', ''.mjs'', ''.cjs'']),
    (''typescript'', [''.ts'', ''.tsx'']),
    (''java'', [''.java'']),
    (''csharp'', [''.cs'']),
    (''cpp'', [''.cpp'', ''.cxx'', ''.cc'', ''.c++'']),
    (''c'', [''.c'', ''.h'']),
    (''go'', [''.go'']),
    (''rust'', [''.rs'']),
    (''ruby'', [''.rb'']),
    (''php'', [''.php'']),
    (''swift'', [''.swift'']),
    (''kotlin'', [''.kt'', ''.kts'']),
    (''sql'', [''.sql'']),
    (''html'', [''.html'', ''.htm'']),
    (''css'', [''.css'']),
    (''dart'', [''.dart''])
  ]\<close>

text \<open>
  \<^verbatim>\<open>__init__\<close> stores what the three \<^verbatim>\<open>_initialize\<close> methods return. It compiles no
  pattern and calls nothing of \<^verbatim>\<open>re\<close>: it has no way to fail.
\<close>

definition init ::
  "(string \<times> language_rules) list \<Rightarrow> (string \<times> framework_rules) list
     \<Rightarrow> (string \<times> string list) list \<Rightarrow> GuessLexer" where
  "init lp fp fe = \<lparr>language_patterns = lp, framework_patterns = fp, file_extensions = fe\<rparr>"

definition GuessLexer_init :: GuessLexer where
  "GuessLexer_init = init initialize_patterns initialize_framework_patterns initialize_extensions"

section \<open>The scorer\<close>

definition pattern_line :: "string \<Rightarrow> nat \<Rightarrow> string" where
  "pattern_line pattern n = ''Pattern match: '' @ pattern @ '' ('' @ py_str n @ '' times)''"

definition keyword_line :: "string \<Rightarrow> string" where
  "keyword_line keyword = ''Keyword found: '' @ keyword"

definition anti_pattern_line :: "string \<Rightarrow> nat \<Rightarrow> string" where
  "anti_pattern_line anti_pattern n = ''Anti-pattern found: '' @ anti_pattern @ '' (-'' @ py_str n @ '')''"

definition framework_pattern_line :: "string \<Rightarrow> nat \<Rightarrow> string" where
  "framework_pattern_line pattern n = ''Framework pattern: '' @ pattern"

definition framework_keyword_line :: "string \<Rightarrow> string" where
  "framework_keyword_line keyword = ''Framework keyword: '' @ keyword"

definition hint_line :: "string \<Rightarrow> string" where
  "hint_line filename = ''File extension hint: '' @ filename"

text \<open>
  The loop over a list of regular expressions, the same in \<^verbatim>\<open>_score_language\<close> (patterns
  and anti-patterns) and in \<^verbatim>\<open>_detect_framework\<close> but for the evidence line \<open>line\<close>:
  every pattern with at least one match adds its number of matches to the counter and one
  line to the evidence. A pattern that does not compile raises, and the loop stops there.
\<close>

fun check_patterns ::
  "re_findall \<Rightarrow> (string \<Rightarrow> nat \<Rightarrow> string) \<Rightarrow> string \<Rightarrow> string list \<Rightarrow> nat \<Rightarrow> string list
     \<Rightarrow> error + nat \<times> string list" where
  "check_patterns re line code [] pattern_matches ev = Inr (pattern_matches, ev)"
| "check_patterns re line code (pattern # rest) pattern_matches ev =
     (case re pattern code of
        Inl e \<Rightarrow> Inl e
      | Inr n \<Rightarrow>
          if n > 0
          then check_patterns re line code rest (pattern_matches + n) (ev @ [line pattern n])
          else check_patterns re line code rest pattern_matches ev)"

text \<open>The loop over the keywords: \<^verbatim>\<open>keyword.lower() in code.lower()\<close> adds one.\<close>

fun check_keywords ::
  "(string \<Rightarrow> string) \<Rightarrow> string \<Rightarrow> string list \<Rightarrow> nat \<Rightarrow> string list \<Rightarrow> nat \<times> string list" where
  "check_keywords line code [] keyword_matches ev = (keyword_matches, ev)"
| "check_keywords line code (keyword # rest) keyword_matches ev =
     (if py_in (py_lower keyword) (py_lower code)
      then check_keywords line code rest (keyword_matches + 1) (ev @ [line keyword])
      else check_keywords line code rest keyword_matches ev)"

definition score_language ::
  "re_findall \<Rightarrow> string \<Rightarrow> string \<Rightarrow> language_rules \<Rightarrow> error + real \<times> string list" where
  "score_language re code lang rs =
     (case check_patterns re pattern_line code (patterns rs) 0 [] of
        Inl e \<Rightarrow> Inl e
      | Inr (pattern_matches, evidence1) \<Rightarrow>
          (case check_keywords keyword_line code (key_words rs) 0 evidence1 of
             (keyword_matches, evidence2) \<Rightarrow>
               (case check_patterns re anti_pattern_line code (anti_patterns rs) 0 evidence2 of
                  Inl e \<Rightarrow> Inl e
                | Inr (anti_pattern_matches, evidence3) \<Rightarrow>
                    let base_score =
                          (real pattern_matches * 0.6 + real keyword_matches * 0.4) * weight rs;
                        penalty = real anti_pattern_matches * 0.3
                    in Inr (max 0 (base_score - penalty), evidence3))))"

section \<open>The framework stage\<close>

text \<open>
  The loop of \<^verbatim>\<open>_detect_framework\<close> over the framework table: an entry of another
  language is skipped before any of its patterns is searched; an entry with a pattern or
  keyword match is stored with its score and evidence.
\<close>

fun score_frameworks ::
  "re_findall \<Rightarrow> string \<Rightarrow> string \<Rightarrow> (string \<times> framework_rules) list
     \<Rightarrow> real dict \<Rightarrow> string list dict \<Rightarrow> error + real dict \<times> string list dict" where
  "score_frameworks re code lang [] framework_scores framework_evidence =
     Inr (framework_scores, framework_evidence)"
| "score_frameworks re code lang ((fw, rs) # rest) framework_scores framework_evidence =
     (if fw_language rs \<noteq> lang
      then score_frameworks re code lang rest framework_scores framework_evidence
      else
        (case check_patterns re framework_pattern_line code (patterns rs) 0 [] of
           Inl e \<Rightarrow> Inl e
         | Inr (pattern_matches, evidence1) \<Rightarrow>
             (case check_keywords framework_keyword_line code (key_words rs) 0 evidence1 of
                (keyword_matches, evidence2) \<Rightarrow>
                  if pattern_matches > 0 \<or> keyword_matches > 0
                  then score_frameworks re code lang rest
                         (dict_set framework_scores fw
                            ((real pattern_matches * 0.7 + real keyword_matches * 0.3) * weight rs))
                         (dict_set framework_evidence fw evidence2)
                  else score_frameworks re code lang rest framework_scores framework_evidence)))"

definition detect_framework ::
  "re_findall \<Rightarrow> GuessLexer \<Rightarrow> string \<Rightarrow> string \<Rightarrow> error + (string \<times> real \<times> string list) option" where
  "detect_framework re self code lang =
     (case score_frameworks re code lang (framework_patterns self) [] [] of
        Inl e \<Rightarrow> Inl e
      | Inr (framework_scores, framework_evidence) \<Rightarrow>
          (case framework_scores of
             [] \<Rightarrow> Inr None
           | x # xs \<Rightarrow>
               (case max_item x xs of
                  (best_framework, s) \<Rightarrow>
                    Inr (Some (best_framework, min (s / 5) 1,
                               dd_get framework_evidence best_framework)))))"

section \<open>The language stage and the entry point\<close>

fun find_extension :: "string \<Rightarrow> (string \<times> string list) list \<Rightarrow> string option" where
  "find_extension ext [] = None"
| "find_extension ext ((lang, extensions) # rest) =
     (if ext \<in> set extensions then Some lang else find_extension ext rest)"

definition get_extension_hint :: "GuessLexer \<Rightarrow> string \<Rightarrow> string option" where
  "get_extension_hint self filename =
     find_extension (snd (splitext (py_lower filename))) (file_extensions self)"

text \<open>
  \<^verbatim>\<open>if filename: extension_hint = self._get_extension_hint(filename)\<close>: no filename and
  the empty filename give no hint.
\<close>

definition extension_hint_of :: "GuessLexer \<Rightarrow> string option \<Rightarrow> string option" where
  "extension_hint_of self filename =
     (case filename of
        None \<Rightarrow> None
      | Some f \<Rightarrow> if f = [] then None else get_extension_hint self f)"

text \<open>The loop of \<^verbatim>\<open>analyze_code\<close> over the language table.\<close>

fun score_languages ::
  "re_findall \<Rightarrow> string \<Rightarrow> (string \<times> language_rules) list
     \<Rightarrow> real dict \<Rightarrow> string list dict \<Rightarrow> error + real dict \<times> string list dict" where
  "score_languages re code [] language_scores language_evidence =
     Inr (language_scores, language_evidence)"
| "score_languages re code ((lang, rs) # rest) language_scores language_evidence =
     (case score_language re code lang rs of
        Inl e \<Rightarrow> Inl e
      | Inr (score, ev) \<Rightarrow>
          if score > 0
          then score_languages re code rest
                 (dict_set language_scores lang score) (dict_set language_evidence lang ev)
          else score_languages re code rest language_scores language_evidence)"

text \<open>
  \<^verbatim>\<open>if extension_hint and extension_hint in language_scores\<close>: the score of the hinted
  language is multiplied by 1.5 and its evidence gets the hint line.
\<close>

definition apply_extension_hint ::
  "string option \<Rightarrow> string option \<Rightarrow> real dict \<Rightarrow> string list dict \<Rightarrow> real dict \<times> string list dict" where
  "apply_extension_hint extension_hint filename language_scores language_evidence =
     (case extension_hint of
        None \<Rightarrow> (language_scores, language_evidence)
      | Some h \<Rightarrow>
          (case (if h = [] then None else map_of language_scores h) of
             None \<Rightarrow> (language_scores, language_evidence)
           | Some s \<Rightarrow>
               (dict_set language_scores h (s * 1.5),
                dict_set language_evidence h
                  (dd_get language_evidence h @ [hint_line (case filename of None \<Rightarrow> [] | Some f \<Rightarrow> f)]))))"

text \<open>The two dicts of \<^verbatim>\<open>analyze_code\<close> as they stand when the best language is chosen.\<close>

definition language_stage ::
  "re_findall \<Rightarrow> GuessLexer \<Rightarrow> string \<Rightarrow> string option \<Rightarrow> error + real dict \<times> string list dict" where
  "language_stage re self code filename =
     (case score_languages re code (language_patterns self) [] [] of
        Inl e \<Rightarrow> Inl e
      | Inr (language_scores, language_evidence) \<Rightarrow>
          Inr (apply_extension_hint (extension_hint_of self filename) filename
                 language_scores language_evidence))"

definition unknown_result :: "string \<Rightarrow> DetectionResult" where
  "unknown_result why =
     \<lparr>language = ''unknown'', confidence = 0, framework = None, evidence = [why]\<rparr>"

definition analyze_code ::
  "re_findall \<Rightarrow> GuessLexer \<Rightarrow> string \<Rightarrow> string option \<Rightarrow> error + DetectionResult" where
  "analyze_code re self code filename =
     (if py_strip code = [] then Inr (unknown_result ''Empty code'')
      else
        (case language_stage re self code filename of
           Inl e \<Rightarrow> Inl e
         | Inr (language_scores, language_evidence) \<Rightarrow>
             (case language_scores of
                [] \<Rightarrow> Inr (unknown_result ''No patterns matched'')
              | x # xs \<Rightarrow>
                  (case max_item x xs of
                     (best_language, s) \<Rightarrow>
                       (case detect_framework re self code best_language of
                          Inl e \<Rightarrow> Inl e
                        | Inr None \<Rightarrow>
                            Inr \<lparr>language = best_language,
                                 confidence = min s 1,
                                 framework = None,
                                 evidence = dd_get language_evidence best_language @ []\<rparr>
                        | Inr (Some (fw, framework_confidence, framework_evidence)) \<Rightarrow>
                            Inr \<lparr>language = best_language,
                                 confidence = min (min s 1 + framework_confidence * 0.3) 1,
                                 framework = Some fw,
                                 evidence = dd_get language_evidence best_language
                                              @ framework_evidence\<rparr>)))))"

section \<open>The specification's reading of the scores\<close>

text \<open>
  The definitions of this section follow the words of the specification, not the code;
  the theorems below compare the two.
\<close>

definition compiles :: "re_findall \<Rightarrow> string \<Rightarrow> string \<Rightarrow> bool" where
  "compiles re code pattern = (case re pattern code of Inl e \<Rightarrow> False | Inr n \<Rightarrow> True)"

definition match_count :: "re_findall \<Rightarrow> string \<Rightarrow> string \<Rightarrow> nat" where
  "match_count re code pattern = (case re pattern code of Inl e \<Rightarrow> 0 | Inr n \<Rightarrow> n)"

definition is_substring :: "string \<Rightarrow> string \<Rightarrow> bool" where
  "is_substring sub s = (\<exists>before after. s = before @ sub @ after)"

definition keyword_present :: "string \<Rightarrow> string \<Rightarrow> bool" where
  "keyword_present code keyword = is_substring (py_lower keyword) (py_lower code)"

definition spec_pattern_matches :: "re_findall \<Rightarrow> string \<Rightarrow> string list \<Rightarrow> nat" where
  "spec_pattern_matches re code ps = sum_list (map (match_count re code) ps)"

definition spec_keyword_matches :: "string \<Rightarrow> string list \<Rightarrow> nat" where
  "spec_keyword_matches code ks = length (filter (keyword_present code) ks)"

definition spec_language_score :: "re_findall \<Rightarrow> string \<Rightarrow> language_rules \<Rightarrow> real" where
  "spec_language_score re code rs =
     max 0 ((real (spec_pattern_matches re code (patterns rs)) * 0.6
              + real (spec_keyword_matches code (key_words rs)) * 0.4) * weight rs
            - real (spec_pattern_matches re code (anti_patterns rs)) * 0.3)"

definition spec_framework_score :: "re_findall \<Rightarrow> string \<Rightarrow> framework_rules \<Rightarrow> real" where
  "spec_framework_score re code rs =
     (real (spec_pattern_matches re code (patterns rs)) * 0.7
        + real (spec_keyword_matches code (key_words rs)) * 0.3) * weight rs"

text \<open>
  The evidence in the order of discovery: a line for every pattern with a match, then a
  line for every keyword present, then (for a language) a line for every anti-pattern
  with a match.
\<close>

definition pattern_evidence ::
  "re_findall \<Rightarrow> (string \<Rightarrow> nat \<Rightarrow> string) \<Rightarrow> string \<Rightarrow> string list \<Rightarrow> string list" where
  "pattern_evidence re line code ps =
     map (\<lambda>p. line p (match_count re code p)) (filter (\<lambda>p. 0 < match_count re code p) ps)"

definition spec_language_evidence :: "re_findall \<Rightarrow> string \<Rightarrow> language_rules \<Rightarrow> string list" where
  "spec_language_evidence re code rs =
     pattern_evidence re pattern_line code (patterns rs)
     @ map keyword_line (filter (keyword_present code) (key_words rs))
     @ pattern_evidence re anti_pattern_line code (anti_patterns rs)"

definition spec_framework_evidence :: "re_findall \<Rightarrow> string \<Rightarrow> framework_rules \<Rightarrow> string list" where
  "spec_framework_evidence re code rs =
     pattern_evidence re framework_pattern_line code (patterns rs)
     @ map framework_keyword_line (filter (keyword_present code) (key_words rs))"

text \<open>
  The score map and the evidence map of the language stage before the hint: the
  languages that score above zero, in the order of the table.
\<close>

definition language_candidates ::
  "re_findall \<Rightarrow> string \<Rightarrow> (string \<times> language_rules) list \<Rightarrow> (string \<times> language_rules) list" where
  "language_candidates re code tbl = filter (\<lambda>(lang, rs). 0 < spec_language_score re code rs) tbl"

definition spec_language_scores ::
  "re_findall \<Rightarrow> string \<Rightarrow> (string \<times> language_rules) list \<Rightarrow> real dict" where
  "spec_language_scores re code tbl =
     map (\<lambda>(lang, rs). (lang, spec_language_score re code rs)) (language_candidates re code tbl)"

definition spec_language_evidences ::
  "re_findall \<Rightarrow> string \<Rightarrow> (string \<times> language_rules) list \<Rightarrow> string list dict" where
  "spec_language_evidences re code tbl =
     map (\<lambda>(lang, rs). (lang, spec_language_evidence re code rs)) (language_candidates re code tbl)"

text \<open>Every pattern and anti-pattern of a language table compiles.\<close>

definition languages_compile ::
  "re_findall \<Rightarrow> string \<Rightarrow> (string \<times> language_rules) list \<Rightarrow> bool" where
  "languages_compile re code tbl =
     list_all (\<lambda>(lang, rs). list_all (compiles re code) (patterns rs @ anti_patterns rs)) tbl"

text \<open>Every pattern of the frameworks of one language compiles.\<close>

definition frameworks_compile ::
  "re_findall \<Rightarrow> string \<Rightarrow> string \<Rightarrow> (string \<times> framework_rules) list \<Rightarrow> bool" where
  "frameworks_compile re code lang tbl =
     list_all (\<lambda>(fw, rs). fw_language rs = lang \<longrightarrow> list_all (compiles re code) (patterns rs)) tbl"

text \<open>
  The frameworks of a language that the code stores: those with a pattern match or a
  keyword present.
\<close>

definition framework_matches ::
  "re_findall \<Rightarrow> string \<Rightarrow> string \<Rightarrow> (string \<times> framework_rules) list \<Rightarrow> (string \<times> framework_rules) list" where
  "framework_matches re code lang tbl =
     filter (\<lambda>(fw, rs). fw_language rs = lang
               \<and> (0 < spec_pattern_matches re code (patterns rs)
                    \<or> 0 < spec_keyword_matches code (key_words rs))) tbl"

definition spec_framework_scores ::
  "re_findall \<Rightarrow> string \<Rightarrow> string \<Rightarrow> (string \<times> framework_rules) list \<Rightarrow> real dict" where
  "spec_framework_scores re code lang tbl =
     map (\<lambda>(fw, rs). (fw, spec_framework_score re code rs)) (framework_matches re code lang tbl)"

definition spec_framework_evidences ::
  "re_findall \<Rightarrow> string \<Rightarrow> string \<Rightarrow> (string \<times> framework_rules) list \<Rightarrow> string list dict" where
  "spec_framework_evidences re code lang tbl =
     map (\<lambda>(fw, rs). (fw, spec_framework_evidence re code rs)) (framework_matches re code lang tbl)"

text \<open>The frameworks of a language that score positively, in the order of the table.\<close>

definition framework_candidates ::
  "re_findall \<Rightarrow> GuessLexer \<Rightarrow> string \<Rightarrow> string \<Rightarrow> (string \<times> framework_rules) list" where
  "framework_candidates re self code lang =
     filter (\<lambda>(fw, rs). fw_language rs = lang \<and> 0 < spec_framework_score re code rs)
       (framework_patterns self)"

text \<open>Empty or whitespace-only text.\<close>

definition blank :: "string \<Rightarrow> bool" where
  "blank code = list_all py_isspace code"


text \<open>
  What the proofs use of the three tables: a dict has each key once, the weight of a
  framework is positive, no language is called \<^verbatim>\<open>unknown\<close>, no language name is empty.
\<close>

definition well_formed :: "GuessLexer \<Rightarrow> bool" where
  "well_formed self =
     (distinct (map fst (language_patterns self))
      \<and> distinct (map fst (framework_patterns self))
      \<and> list_all (\<lambda>(fw, rs). 0 < weight rs) (framework_patterns self)
      \<and> ''unknown'' \<notin> set (map fst (language_patterns self))
      \<and> [] \<notin> set (map fst (file_extensions self)))"

section \<open>Sample inputs\<close>

text \<open>
  A regular-expression library given by its answers: the patterns listed in \<open>tbl\<close> have
  the number of matches written there, every other pattern compiles and has no match.
\<close>

definition re_counts :: "(string \<times> nat) list \<Rightarrow> re_findall" where
  "re_counts tbl pattern code = Inr (case map_of tbl pattern of None \<Rightarrow> 0 | Some n \<Rightarrow> n)"

text \<open>A library in which the patterns of \<open>bad\<close> do not compile.\<close>

definition re_rejecting :: "string list \<Rightarrow> re_findall" where
  "re_rejecting bad pattern code = (if pattern \<in> set bad then Inl ReError else Inr 0)"

text \<open>
  The text \<open>sample_text\<close> holds the Python keyword \<^verbatim>\<open>lambda\<close>, the C keyword
  \<^verbatim>\<open>malloc\<close> and seven times the word \<^verbatim>\<open>HttpResponse\<close>, which is a pattern and a
  keyword of the framework django. Of all the patterns and anti-patterns of the two
  tables, \<^verbatim>\<open>HttpResponse\<close> is the only one that \<^verbatim>\<open>re.findall\<close> finds in this text (the
  others need a character or a word the text does not have), and it finds it seven times:
  \<open>sample_re\<close> is Python's library on this text.
\<close>

definition sample_text :: string where
  "sample_text = ''lambda malloc HttpResponse HttpResponse HttpResponse HttpResponse HttpResponse HttpResponse HttpResponse''"

definition sample_re :: re_findall where
  "sample_re = re_counts [(''HttpResponse'', 7)]"


definition sample_result :: DetectionResult where
  "sample_result =
     \<lparr>language = ''python'', confidence = 0.7, framework = Some ''django'',
      evidence = [''Keyword found: lambda'', ''Framework pattern: HttpResponse'',
                  ''Framework keyword: HttpResponse'']\<rparr>"

definition sample_result_hinted :: DetectionResult where
  "sample_result_hinted =
     \<lparr>language = ''c'', confidence = 0.6, framework = None,
      evidence = [''Keyword found: malloc'', ''File extension hint: x.c'']\<rparr>"


text \<open>A language table whose only pattern is the malformed expression \<^verbatim>\<open>(\<close>.\<close>

definition broken_patterns :: "(string \<times> language_rules) list" where
  "broken_patterns = [(''x'', \<lparr>key_words = [], patterns = [''(''], weight = 1.0, anti_patterns = []\<rparr>)]"

section \<open>Properties of the model\<close>



subsection \<open>Dicts\<close>


lemma keys_dict_set:
  "map fst (dict_set d k v) = (if k \<in> fst ` set d then map fst d else map fst d @ [k])"
  by (induction d) force+

lemma dict_set_fresh: "k \<notin> fst ` set d \<Longrightarrow> dict_set d k v = d @ [(k, v)]"
  by (induction d) auto

lemma distinct_dict_set: "distinct (map fst d) \<Longrightarrow> distinct (map fst (dict_set d k v))"
  by (simp add: keys_dict_set)

lemma set_dict_set: "(k', v') \<in> set (dict_set d k v) \<Longrightarrow> (k', v') = (k, v) \<or> (k', v') \<in> set d"
  by (induction d) (auto split: if_splits)

lemma dict_set_nonempty: "dict_set d k v \<noteq> []"
  by (cases d) (auto split: if_splits)


subsection \<open>The maximum\<close>

lemma max_item_mem: "max_item b xs \<in> set (b # xs)"
  by (induction xs arbitrary: b) (auto split: if_splits)

lemma max_item_ge_best: "snd b \<le> snd (max_item b xs)"
proof (induction xs arbitrary: b)
  case Nil
  show ?case by simp
next
  case (Cons x xs)
  show ?case
  proof (cases "snd x > snd b")
    case True
    have "snd x \<le> snd (max_item x xs)" by (rule Cons.IH)
    with True show ?thesis by simp
  next
    case False
    with Cons.IH [of b] show ?thesis by simp
  qed
qed

lemma max_item_ge: "y \<in> set (b # xs) \<Longrightarrow> snd y \<le> snd (max_item b xs)"
proof (induction xs arbitrary: b)
  case Nil
  then show ?case by simp
next
  case (Cons x xs)
  let ?b = "if snd x > snd b then x else b"
  have step: "max_item b (x # xs) = max_item ?b xs" by simp
  have ge: "snd ?b \<le> snd (max_item ?b xs)" by (rule max_item_ge_best)
  from Cons.prems consider "y = b" | "y = x" | "y \<in> set xs" by auto
  then show ?case
  proof cases
    case 1
    have "snd b \<le> snd ?b" by simp
    with ge 1 step show ?thesis by (metis order_trans)
  next
    case 2
    have "snd x \<le> snd ?b" by simp
    with ge 2 step show ?thesis by (metis order_trans)
  next
    case 3
    then have "y \<in> set (?b # xs)" by simp
    from Cons.IH [OF this] step show ?thesis by simp
  qed
qed

subsection \<open>Substrings and blank text\<close>

lemma startswith_iff: "startswith s p \<longleftrightarrow> (\<exists>after. s = p @ after)"
  by (induction s p rule: startswith.induct) auto

lemma py_in_iff: "py_in sub s \<longleftrightarrow> is_substring sub s"
proof (induction s)
  case Nil
  show ?case by (auto simp: is_substring_def)
next
  case (Cons c cs)
  show ?case
  proof
    assume "py_in sub (c # cs)"
    then consider "startswith (c # cs) sub" | "py_in sub cs" by auto
    then show "is_substring sub (c # cs)"
    proof cases
      case 1
      then obtain after where "c # cs = sub @ after" by (auto simp: startswith_iff)
      then have "c # cs = [] @ sub @ after" by simp
      then show ?thesis unfolding is_substring_def by blast
    next
      case 2
      with Cons.IH obtain before after where "cs = before @ sub @ after"
        by (auto simp: is_substring_def)
      then have "c # cs = (c # before) @ sub @ after" by simp
      then show ?thesis unfolding is_substring_def by blast
    qed
  next
    assume "is_substring sub (c # cs)"
    then obtain before after where eq: "c # cs = before @ sub @ after"
      by (auto simp: is_substring_def)
    show "py_in sub (c # cs)"
    proof (cases before)
      case Nil
      with eq have "startswith (c # cs) sub" by (auto simp: startswith_iff)
      then show ?thesis by simp
    next
      case (Cons b bs)
      with eq have "cs = bs @ sub @ after" by simp
      then have "is_substring sub cs" unfolding is_substring_def by blast
      with Cons.IH show ?thesis by simp
    qed
  qed
qed

lemma py_strip_blank: "py_strip code = [] \<longleftrightarrow> blank code"
proof -
  let ?d = "dropWhile py_isspace code"
  have A: "(\<forall>x\<in>set ?d. py_isspace x) \<longleftrightarrow> (\<forall>x\<in>set code. py_isspace x)"
  proof
    assume a: "\<forall>x\<in>set ?d. py_isspace x"
    have "?d = []"
    proof (rule ccontr)
      assume ne: "?d \<noteq> []"
      then have "\<not> py_isspace (hd ?d)" by (rule hd_dropWhile)
      moreover from ne have "hd ?d \<in> set ?d" by simp
      ultimately show False using a by blast
    qed
    then show "\<forall>x\<in>set code. py_isspace x" by (simp only: dropWhile_eq_Nil_conv)
  next
    assume "\<forall>x\<in>set code. py_isspace x"
    then show "\<forall>x\<in>set ?d. py_isspace x" by (blast dest: set_dropWhileD)
  qed
  have B: "py_strip code = [] \<longleftrightarrow> (\<forall>x\<in>set ?d. py_isspace x)"
    by (auto simp: py_strip_def dropWhile_eq_Nil_conv dest: set_dropWhileD)
  show ?thesis unfolding blank_def list_all_iff using A B by blast
qed

subsection \<open>The two scans of the scorer\<close>

lemma check_keywords_eq:
  "check_keywords line code ks n ev =
     (n + spec_keyword_matches code ks, ev @ map line (filter (keyword_present code) ks))"
  by (induction ks arbitrary: n ev)
     (simp_all add: spec_keyword_matches_def keyword_present_def py_in_iff)

lemma check_patterns_ok:
  "list_all (compiles re code) ps \<Longrightarrow>
   check_patterns re line code ps n ev =
     Inr (n + spec_pattern_matches re code ps,
          ev @ pattern_evidence re line code ps)"
  by (induction ps arbitrary: n ev)
     (auto simp: spec_pattern_matches_def pattern_evidence_def compiles_def match_count_def
           split: sum.splits)

lemma check_patterns_fails:
  "\<not> list_all (compiles re code) ps \<Longrightarrow> check_patterns re line code ps n ev = Inl ReError"
proof (induction ps arbitrary: n ev)
  case Nil
  then show ?case by simp
next
  case (Cons p ps)
  show ?case
  proof (cases "re p code")
    case (Inl e)
    then show ?thesis by (cases e) simp
  next
    case (Inr k)
    then have "compiles re code p" by (simp add: compiles_def)
    with Cons.prems have "\<not> list_all (compiles re code) ps" by simp
    with Cons.IH Inr show ?thesis by simp
  qed
qed

lemma check_patterns_Inr_iff:
  "(\<exists>x. check_patterns re line code ps n ev = Inr x) \<longleftrightarrow> list_all (compiles re code) ps"
proof (cases "list_all (compiles re code) ps")
  case True
  then show ?thesis by (simp add: check_patterns_ok)
next
  case False
  then show ?thesis by (simp add: check_patterns_fails)
qed


subsection \<open>The scorer\<close>

lemma score_language_ok:
  assumes "list_all (compiles re code) (patterns rs @ anti_patterns rs)"
  shows "score_language re code lang rs =
           Inr (spec_language_score re code rs, spec_language_evidence re code rs)"
proof -
  from assms have p: "list_all (compiles re code) (patterns rs)"
    and a: "list_all (compiles re code) (anti_patterns rs)" by simp_all
  show ?thesis
    by (simp add: score_language_def check_patterns_ok [OF p] check_patterns_ok [OF a]
          check_keywords_eq spec_language_score_def spec_language_evidence_def Let_def)
qed

lemma score_language_fails:
  assumes "\<not> list_all (compiles re code) (patterns rs @ anti_patterns rs)"
  shows "score_language re code lang rs = Inl ReError"
proof (cases "list_all (compiles re code) (patterns rs)")
  case False
  then show ?thesis by (simp add: score_language_def check_patterns_fails)
next
  case True
  with assms have "\<not> list_all (compiles re code) (anti_patterns rs)" by simp
  with True show ?thesis
    by (simp add: score_language_def check_patterns_ok check_patterns_fails check_keywords_eq)
qed

lemma score_language_Inr:
  assumes "score_language re code lang rs = Inr (s, ev)"
  shows "list_all (compiles re code) (patterns rs @ anti_patterns rs)
         \<and> s = spec_language_score re code rs \<and> ev = spec_language_evidence re code rs"
proof (cases "list_all (compiles re code) (patterns rs @ anti_patterns rs)")
  case True
  with assms score_language_ok [OF True, of lang] show ?thesis by simp
next
  case False
  with assms score_language_fails [OF False, of lang] show ?thesis by simp
qed

lemma spec_language_score_nonneg: "0 \<le> spec_language_score re code rs"
  by (simp add: spec_language_score_def)


subsection \<open>The loop over the languages\<close>

lemma score_languages_fails:
  "\<not> languages_compile re code tbl \<Longrightarrow> score_languages re code tbl ls le = Inl ReError"
proof (induction tbl arbitrary: ls le)
  case Nil
  then show ?case by (simp add: languages_compile_def)
next
  case (Cons x tbl)
  obtain lang rs where x: "x = (lang, rs)" by (cases x)
  show ?case
  proof (cases "list_all (compiles re code) (patterns rs @ anti_patterns rs)")
    case False
    then show ?thesis by (simp add: x score_language_fails)
  next
    case True
    with Cons.prems x have "\<not> languages_compile re code tbl"
      by (simp add: languages_compile_def)
    then have "\<And>ls le. score_languages re code tbl ls le = Inl ReError" by (rule Cons.IH)
    then show ?thesis by (simp add: x score_language_ok [OF True])
  qed
qed

lemma score_languages_ok:
  assumes "languages_compile re code tbl"
    and "distinct (map fst tbl)"
    and "fst ` set ls \<inter> fst ` set tbl = {}"
    and "fst ` set le \<inter> fst ` set tbl = {}"
  shows "score_languages re code tbl ls le =
           Inr (ls @ spec_language_scores re code tbl, le @ spec_language_evidences re code tbl)"
  using assms
proof (induction tbl arbitrary: ls le)
  case Nil
  show ?case
    by (simp add: spec_language_scores_def spec_language_evidences_def language_candidates_def)
next
  case (Cons x tbl)
  obtain lang rs where x: "x = (lang, rs)" by (cases x)
  from Cons.prems(1) x have c: "list_all (compiles re code) (patterns rs @ anti_patterns rs)"
    and cs: "languages_compile re code tbl" by (simp_all add: languages_compile_def)
  from Cons.prems(2) x have d: "distinct (map fst tbl)" and fresh: "lang \<notin> fst ` set tbl"
    by auto
  from Cons.prems(3) x have ls: "lang \<notin> fst ` set ls" "fst ` set ls \<inter> fst ` set tbl = {}"
    by auto
  from Cons.prems(4) x have le: "lang \<notin> fst ` set le" "fst ` set le \<inter> fst ` set tbl = {}"
    by auto
  let ?s = "spec_language_score re code rs" and ?e = "spec_language_evidence re code rs"
  show ?case
  proof (cases "0 < ?s")
    case True
    have a: "fst ` set (ls @ [(lang, ?s)]) \<inter> fst ` set tbl = {}" using ls fresh by auto
    have b: "fst ` set (le @ [(lang, ?e)]) \<inter> fst ` set tbl = {}" using le fresh by auto
    have "score_languages re code tbl (ls @ [(lang, ?s)]) (le @ [(lang, ?e)]) =
            Inr ((ls @ [(lang, ?s)]) @ spec_language_scores re code tbl,
                 (le @ [(lang, ?e)]) @ spec_language_evidences re code tbl)"
      by (rule Cons.IH [OF cs d a b])
    with True show ?thesis
      by (simp add: x score_language_ok [OF c] dict_set_fresh [OF ls(1)] dict_set_fresh [OF le(1)]
            spec_language_scores_def spec_language_evidences_def language_candidates_def)
  next
    case False
    have "score_languages re code tbl ls le =
            Inr (ls @ spec_language_scores re code tbl, le @ spec_language_evidences re code tbl)"
      by (rule Cons.IH [OF cs d ls(2) le(2)])
    with False show ?thesis
      by (simp add: x score_language_ok [OF c]
            spec_language_scores_def spec_language_evidences_def language_candidates_def)
  qed
qed

lemma score_languages_start:
  assumes "distinct (map fst tbl)"
  shows "score_languages re code tbl [] [] =
           (if languages_compile re code tbl
            then Inr (spec_language_scores re code tbl, spec_language_evidences re code tbl)
            else Inl ReError)"
proof (cases "languages_compile re code tbl")
  case True
  with score_languages_ok [OF True assms, of "[]" "[]"] show ?thesis by simp
next
  case False
  then show ?thesis by (simp add: score_languages_fails)
qed

lemma keys_spec_language_scores:
  "map fst (spec_language_scores re code tbl) = map fst (language_candidates re code tbl)"
  by (simp add: spec_language_scores_def case_prod_beta comp_def)

lemma keys_spec_language_evidences:
  "map fst (spec_language_evidences re code tbl) = map fst (language_candidates re code tbl)"
  by (simp add: spec_language_evidences_def case_prod_beta comp_def)

lemma distinct_language_candidates:
  "distinct (map fst tbl) \<Longrightarrow> distinct (map fst (language_candidates re code tbl))"
  by (simp add: language_candidates_def distinct_map_filter)

lemma spec_language_scores_mem:
  "(k, v) \<in> set (spec_language_scores re code tbl) \<longleftrightarrow>
     (\<exists>rs. (k, rs) \<in> set tbl \<and> v = spec_language_score re code rs \<and> 0 < v)"
  by (auto simp: spec_language_scores_def language_candidates_def)


subsection \<open>The loop over the frameworks\<close>

lemma score_frameworks_fails:
  "\<not> frameworks_compile re code lang tbl \<Longrightarrow> score_frameworks re code lang tbl fs fe = Inl ReError"
proof (induction tbl arbitrary: fs fe)
  case Nil
  then show ?case by (simp add: frameworks_compile_def)
next
  case (Cons x tbl)
  obtain fw rs where x: "x = (fw, rs)" by (cases x)
  show ?case
  proof (cases "fw_language rs = lang")
    case False
    with Cons.prems x have "\<not> frameworks_compile re code lang tbl"
      by (simp add: frameworks_compile_def)
    then have "\<And>fs fe. score_frameworks re code lang tbl fs fe = Inl ReError" by (rule Cons.IH)
    with False show ?thesis by (simp add: x)
  next
    case True
    show ?thesis
    proof (cases "list_all (compiles re code) (patterns rs)")
      case False
      with True show ?thesis by (simp add: x check_patterns_fails)
    next
      case c: True
      with Cons.prems x True have "\<not> frameworks_compile re code lang tbl"
        by (simp add: frameworks_compile_def)
      then have "\<And>fs fe. score_frameworks re code lang tbl fs fe = Inl ReError" by (rule Cons.IH)
      with True show ?thesis by (simp add: x check_patterns_ok [OF c] check_keywords_eq)
    qed
  qed
qed

lemma score_frameworks_ok:
  assumes "frameworks_compile re code lang tbl"
    and "distinct (map fst tbl)"
    and "fst ` set fs \<inter> fst ` set tbl = {}"
    and "fst ` set fe \<inter> fst ` set tbl = {}"
  shows "score_frameworks re code lang tbl fs fe =
           Inr (fs @ spec_framework_scores re code lang tbl,
                fe @ spec_framework_evidences re code lang tbl)"
  using assms
proof (induction tbl arbitrary: fs fe)
  case Nil
  show ?case
    by (simp add: spec_framework_scores_def spec_framework_evidences_def framework_matches_def)
next
  case (Cons x tbl)
  obtain fw rs where x: "x = (fw, rs)" by (cases x)
  from Cons.prems(1) x have cs: "frameworks_compile re code lang tbl"
    by (simp add: frameworks_compile_def)
  from Cons.prems(2) x have d: "distinct (map fst tbl)" and fresh: "fw \<notin> fst ` set tbl"
    by auto
  from Cons.prems(3) x have fs: "fw \<notin> fst ` set fs" "fst ` set fs \<inter> fst ` set tbl = {}"
    by auto
  from Cons.prems(4) x have fe: "fw \<notin> fst ` set fe" "fst ` set fe \<inter> fst ` set tbl = {}"
    by auto
  let ?s = "spec_framework_score re code rs" and ?e = "spec_framework_evidence re code rs"
  let ?hit = "fw_language rs = lang
               \<and> (0 < spec_pattern_matches re code (patterns rs)
                    \<or> 0 < spec_keyword_matches code (key_words rs))"
  have skip: "score_frameworks re code lang tbl fs fe =
            Inr (fs @ spec_framework_scores re code lang tbl,
                 fe @ spec_framework_evidences re code lang tbl)"
    by (rule Cons.IH [OF cs d fs(2) fe(2)])
  show ?case
  proof (cases "fw_language rs = lang")
    case False
    with skip show ?thesis
      by (simp add: x spec_framework_scores_def spec_framework_evidences_def framework_matches_def)
  next
    case True
    with Cons.prems(1) x have c: "list_all (compiles re code) (patterns rs)"
      by (simp add: frameworks_compile_def)
    show ?thesis
    proof (cases ?hit)
      case hit: True
      have a: "fst ` set (fs @ [(fw, ?s)]) \<inter> fst ` set tbl = {}" using fs fresh by auto
      have b: "fst ` set (fe @ [(fw, ?e)]) \<inter> fst ` set tbl = {}" using fe fresh by auto
      have "score_frameworks re code lang tbl (fs @ [(fw, ?s)]) (fe @ [(fw, ?e)]) =
              Inr ((fs @ [(fw, ?s)]) @ spec_framework_scores re code lang tbl,
                   (fe @ [(fw, ?e)]) @ spec_framework_evidences re code lang tbl)"
        by (rule Cons.IH [OF cs d a b])
      with True hit show ?thesis
        by (simp add: x check_patterns_ok [OF c] check_keywords_eq
              dict_set_fresh [OF fs(1)] dict_set_fresh [OF fe(1)]
              spec_framework_scores_def spec_framework_evidences_def framework_matches_def
              spec_framework_score_def spec_framework_evidence_def)
    next
      case miss: False
      with True skip show ?thesis
        by (simp add: x check_patterns_ok [OF c] check_keywords_eq
              spec_framework_scores_def spec_framework_evidences_def framework_matches_def)
    qed
  qed
qed

lemma score_frameworks_start:
  assumes "distinct (map fst tbl)"
  shows "score_frameworks re code lang tbl [] [] =
           (if frameworks_compile re code lang tbl
            then Inr (spec_framework_scores re code lang tbl,
                      spec_framework_evidences re code lang tbl)
            else Inl ReError)"
proof (cases "frameworks_compile re code lang tbl")
  case True
  with score_frameworks_ok [OF True assms, of "[]" "[]"] show ?thesis by simp
next
  case False
  then show ?thesis by (simp add: score_frameworks_fails)
qed

lemma spec_framework_scores_mem:
  "(k, v) \<in> set (spec_framework_scores re code lang tbl) \<longleftrightarrow>
     (\<exists>rs. (k, rs) \<in> set (framework_matches re code lang tbl) \<and> v = spec_framework_score re code rs)"
  by (auto simp: spec_framework_scores_def)

lemma map_of_spec_framework_evidences:
  assumes "distinct (map fst tbl)" and "(k, rs) \<in> set (framework_matches re code lang tbl)"
  shows "dd_get (spec_framework_evidences re code lang tbl) k = spec_framework_evidence re code rs"
proof -
  have d: "distinct (map fst (framework_matches re code lang tbl))"
    using assms(1) by (simp add: framework_matches_def distinct_map_filter)
  have "map fst (spec_framework_evidences re code lang tbl) = map fst (framework_matches re code lang tbl)"
    by (simp add: spec_framework_evidences_def case_prod_beta comp_def)
  with d have "distinct (map fst (spec_framework_evidences re code lang tbl))" by simp
  moreover from assms(2) have "(k, spec_framework_evidence re code rs)
       \<in> set (spec_framework_evidences re code lang tbl)"
    by (force simp: spec_framework_evidences_def)
  ultimately have "map_of (spec_framework_evidences re code lang tbl) k
       = Some (spec_framework_evidence re code rs)" by simp
  then show ?thesis by (simp add: dd_get_def)
qed

text \<open>With a positive weight a framework is stored exactly when its score is positive.\<close>

lemma framework_hit_iff:
  assumes "0 < weight rs"
  shows "(0 < spec_pattern_matches re code (patterns rs) \<or> 0 < spec_keyword_matches code (key_words rs))
         \<longleftrightarrow> 0 < spec_framework_score re code rs"
proof -
  let ?p = "spec_pattern_matches re code (patterns rs)"
  let ?k = "spec_keyword_matches code (key_words rs)"
  have "0 < real ?p * 0.7 + real ?k * 0.3 \<longleftrightarrow> 0 < ?p \<or> 0 < ?k"
  proof (cases "?p = 0 \<and> ?k = 0")
    case True
    then show ?thesis by simp
  next
    case False
    then have "1 \<le> real ?p \<or> 1 \<le> real ?k" by auto
    then have "0 < real ?p * 0.7 + real ?k * 0.3" by auto
    with False show ?thesis by auto
  qed
  with assms show ?thesis by (simp add: spec_framework_score_def zero_less_mult_iff)
qed

lemma framework_matches_candidates:
  assumes "\<forall>(fw, rs)\<in>set (framework_patterns self). 0 < weight rs"
  shows "framework_matches re code lang (framework_patterns self) = framework_candidates re self code lang"
  unfolding framework_matches_def framework_candidates_def
proof (rule filter_cong [OF refl])
  fix x assume "x \<in> set (framework_patterns self)"
  with assms have "0 < weight (snd x)" by auto
  then show "(case x of (fw, rs) \<Rightarrow> fw_language rs = lang
               \<and> (0 < spec_pattern_matches re code (patterns rs)
                    \<or> 0 < spec_keyword_matches code (key_words rs)))
        = (case x of (fw, rs) \<Rightarrow> fw_language rs = lang \<and> 0 < spec_framework_score re code rs)"
    by (cases x) (simp add: framework_hit_iff)
qed



subsection \<open>The framework stage\<close>

lemma detect_framework_eq:
  assumes "distinct (map fst (framework_patterns self))"
  shows "detect_framework re self code lang =
     (if frameworks_compile re code lang (framework_patterns self)
      then (case spec_framework_scores re code lang (framework_patterns self) of
              [] \<Rightarrow> Inr None
            | x # xs \<Rightarrow>
                (case max_item x xs of
                   (best, s) \<Rightarrow>
                     Inr (Some (best, min (s / 5) 1,
                                dd_get (spec_framework_evidences re code lang (framework_patterns self)) best))))
      else Inl ReError)"
  by (simp add: detect_framework_def score_frameworks_start [OF assms])

lemma detect_framework_None:
  assumes "well_formed self" and "detect_framework re self code lang = Inr None"
  shows "framework_candidates re self code lang = []"
proof -
  from assms(1) have d: "distinct (map fst (framework_patterns self))"
    and w: "\<forall>(fw, rs)\<in>set (framework_patterns self). 0 < weight rs"
    by (simp_all add: well_formed_def list_all_iff)
  from assms(2) have "spec_framework_scores re code lang (framework_patterns self) = []"
    by (simp add: detect_framework_eq [OF d] split: if_splits list.splits prod.splits)
  then have "framework_matches re code lang (framework_patterns self) = []"
    by (simp add: spec_framework_scores_def)
  then show ?thesis by (simp add: framework_matches_candidates [OF w])
qed

lemma detect_framework_Some:
  assumes "well_formed self" and "detect_framework re self code lang = Inr (Some (fw, fc, fev))"
  shows "\<exists>rs. (fw, rs) \<in> set (framework_candidates re self code lang)
           \<and> fc = min (spec_framework_score re code rs / 5) 1
           \<and> fev = spec_framework_evidence re code rs
           \<and> (\<forall>c\<in>set (framework_candidates re self code lang).
                 spec_framework_score re code (snd c) \<le> spec_framework_score re code rs)"
proof -
  let ?tbl = "framework_patterns self"
  from assms(1) have d: "distinct (map fst ?tbl)"
    and w: "\<forall>(fw, rs)\<in>set ?tbl. 0 < weight rs"
    by (simp_all add: well_formed_def list_all_iff)
  have mc: "framework_matches re code lang ?tbl = framework_candidates re self code lang"
    by (rule framework_matches_candidates [OF w])
  from assms(2) obtain x xs s where sc: "spec_framework_scores re code lang ?tbl = x # xs"
    and mx: "max_item x xs = (fw, s)"
    and fc: "fc = min (s / 5) 1"
    and fev: "fev = dd_get (spec_framework_evidences re code lang ?tbl) fw"
    by (auto simp: detect_framework_eq [OF d] split: if_splits list.splits prod.splits)
  have "max_item x xs \<in> set (x # xs)" by (rule max_item_mem)
  with mx sc have "(fw, s) \<in> set (spec_framework_scores re code lang ?tbl)" by simp
  then obtain rs where rs: "(fw, rs) \<in> set (framework_matches re code lang ?tbl)"
    and s: "s = spec_framework_score re code rs"
    by (auto simp: spec_framework_scores_mem)
  have ev: "fev = spec_framework_evidence re code rs"
    using fev map_of_spec_framework_evidences [OF d rs] by simp
  have "\<forall>c\<in>set (framework_matches re code lang ?tbl).
           spec_framework_score re code (snd c) \<le> spec_framework_score re code rs"
  proof
    fix c assume c: "c \<in> set (framework_matches re code lang ?tbl)"
    then have "(fst c, spec_framework_score re code (snd c))
                  \<in> set (spec_framework_scores re code lang ?tbl)"
      by (force simp: spec_framework_scores_def)
    with sc have "(fst c, spec_framework_score re code (snd c)) \<in> set (x # xs)" by simp
    from max_item_ge [OF this] mx s
    show "spec_framework_score re code (snd c) \<le> spec_framework_score re code rs" by simp
  qed
  with rs s fc ev mc show ?thesis by auto
qed

lemma detect_framework_empty:
  assumes "well_formed self" and "detect_framework re self code lang = Inr res"
    and "framework_candidates re self code lang = []"
  shows "res = None"
proof (cases res)
  case None
  then show ?thesis .
next
  case (Some t)
  obtain fw fc fev where "t = (fw, fc, fev)" by (cases t)
  with Some assms(2) have "detect_framework re self code lang = Inr (Some (fw, fc, fev))" by simp
  from detect_framework_Some [OF assms(1) this] assms(3) show ?thesis by auto
qed

lemma detect_framework_returns:
  assumes "distinct (map fst (framework_patterns self))"
    and "frameworks_compile re code lang (framework_patterns self)"
  shows "\<exists>res. detect_framework re self code lang = Inr res"
  by (simp add: detect_framework_eq [OF assms(1)] assms(2) split: list.splits prod.splits)

lemma framework_confidence_nonneg:
  assumes "well_formed self" and "detect_framework re self code lang = Inr (Some (fw, fc, fev))"
  shows "0 < fc \<and> fc \<le> 1"
proof -
  from detect_framework_Some [OF assms] obtain rs
    where "(fw, rs) \<in> set (framework_candidates re self code lang)"
      and fc: "fc = min (spec_framework_score re code rs / 5) 1" by blast
  then have "0 < spec_framework_score re code rs" by (auto simp: framework_candidates_def)
  with fc show ?thesis by simp
qed

subsection \<open>The language stage\<close>

lemma language_stage_eq:
  assumes "distinct (map fst (language_patterns self))"
  shows "language_stage re self code filename =
     (if languages_compile re code (language_patterns self)
      then Inr (apply_extension_hint (extension_hint_of self filename) filename
                  (spec_language_scores re code (language_patterns self))
                  (spec_language_evidences re code (language_patterns self)))
      else Inl ReError)"
  by (simp add: language_stage_def score_languages_start [OF assms])

lemma apply_extension_hint_cases:
  "(apply_extension_hint h filename ls le = (ls, le)
      \<and> (h = None \<or> h = Some [] \<or> (\<exists>l. h = Some l \<and> map_of ls l = None)))
   \<or> (\<exists>l s. h = Some l \<and> l \<noteq> [] \<and> map_of ls l = Some s
          \<and> apply_extension_hint h filename ls le =
                (dict_set ls l (s * 1.5),
                 dict_set le l (dd_get le l @ [hint_line (case filename of None \<Rightarrow> [] | Some f \<Rightarrow> f)])))"
  by (cases h; cases "map_of ls (the h)") (auto simp: apply_extension_hint_def)

lemma keys_apply_extension_hint:
  "map fst (fst (apply_extension_hint h filename ls le)) = map fst ls"
proof -
  from apply_extension_hint_cases [of h filename ls le]
  consider (same) "apply_extension_hint h filename ls le = (ls, le)"
    | (bonus) l s where "map_of ls l = Some s"
        "fst (apply_extension_hint h filename ls le) = dict_set ls l (s * 1.5)"
    by auto
  then show ?thesis
  proof cases
    case same
    then show ?thesis by simp
  next
    case (bonus l s)
    from bonus(1) have "l \<in> fst ` set ls" by (metis domI dom_map_of_conv_image_fst)
    with bonus(2) show ?thesis by (simp add: keys_dict_set)
  qed
qed

lemma positive_apply_extension_hint:
  assumes "\<forall>p\<in>set ls. 0 < snd p"
  shows "\<forall>p\<in>set (fst (apply_extension_hint h filename ls le)). 0 < snd p"
proof -
  from apply_extension_hint_cases [of h filename ls le]
  consider (same) "apply_extension_hint h filename ls le = (ls, le)"
    | (bonus) l s where "map_of ls l = Some s"
        "fst (apply_extension_hint h filename ls le) = dict_set ls l (s * 1.5)"
    by auto
  then show ?thesis
  proof cases
    case same
    with assms show ?thesis by simp
  next
    case (bonus l s)
    from bonus(1) have "(l, s) \<in> set ls" by (rule map_of_SomeD)
    with assms have s: "0 < s" by force
    show ?thesis
    proof
      fix p assume "p \<in> set (fst (apply_extension_hint h filename ls le))"
      with bonus(2) have "(fst p, snd p) \<in> set (dict_set ls l (s * 1.5))" by simp
      from set_dict_set [OF this] have "p = (l, s * 1.5) \<or> p \<in> set ls" by auto
      with s assms show "0 < snd p" by auto
    qed
  qed
qed

lemma language_stage_facts:
  assumes "distinct (map fst (language_patterns self))"
    and "language_stage re self code filename = Inr (ls, le)"
  shows "distinct (map fst ls) \<and> (\<forall>p\<in>set ls. 0 < snd p)
         \<and> set (map fst ls) \<subseteq> set (map fst (language_patterns self))
         \<and> languages_compile re code (language_patterns self)"
proof -
  let ?tbl = "language_patterns self"
  let ?h = "extension_hint_of self filename"
  from assms(2) have c: "languages_compile re code ?tbl"
    and eq: "apply_extension_hint ?h filename (spec_language_scores re code ?tbl)
               (spec_language_evidences re code ?tbl) = (ls, le)"
    by (simp_all add: language_stage_eq [OF assms(1)] split: if_splits)
  have k: "map fst ls = map fst (language_candidates re code ?tbl)"
    using keys_apply_extension_hint [of ?h filename "spec_language_scores re code ?tbl"
            "spec_language_evidences re code ?tbl"] eq
    by (simp add: keys_spec_language_scores)
  have "\<forall>p\<in>set (spec_language_scores re code ?tbl). 0 < snd p"
    by (auto simp: spec_language_scores_mem)
  from positive_apply_extension_hint [OF this, of ?h filename "spec_language_evidences re code ?tbl"] eq
  have pos: "\<forall>p\<in>set ls. 0 < snd p" by simp
  have "set (map fst (language_candidates re code ?tbl)) \<subseteq> set (map fst ?tbl)"
    by (auto simp: language_candidates_def)
  with k pos c distinct_language_candidates [OF assms(1), of re code] show ?thesis by simp
qed



subsection \<open>The entry point\<close>

lemma analyze_code_blank:
  "blank code \<Longrightarrow> analyze_code re self code filename = Inr (unknown_result ''Empty code'')"
  by (simp add: analyze_code_def py_strip_blank)

lemma analyze_code_Inr:
  assumes "analyze_code re self code filename = Inr r"
  shows "(blank code \<and> r = unknown_result ''Empty code'')
    \<or> (\<not> blank code \<and> (\<exists>le. language_stage re self code filename = Inr ([], le))
         \<and> r = unknown_result ''No patterns matched'')
    \<or> (\<not> blank code \<and> (\<exists>x xs le best s.
           language_stage re self code filename = Inr (x # xs, le) \<and> max_item x xs = (best, s)
           \<and> ((detect_framework re self code best = Inr None
                 \<and> r = \<lparr>language = best, confidence = min s 1, framework = None,
                         evidence = dd_get le best\<rparr>)
               \<or> (\<exists>fw fc fev. detect_framework re self code best = Inr (Some (fw, fc, fev))
                     \<and> r = \<lparr>language = best, confidence = min (min s 1 + fc * 0.3) 1,
                             framework = Some fw, evidence = dd_get le best @ fev\<rparr>))))"
proof (cases "blank code")
  case True
  with assms show ?thesis by (simp add: analyze_code_blank)
next
  case False
  then have ne: "py_strip code \<noteq> []" by (simp add: py_strip_blank)
  from assms ne obtain ls le where st: "language_stage re self code filename = Inr (ls, le)"
    by (auto simp: analyze_code_def split: sum.splits)
  show ?thesis
  proof (cases ls)
    case Nil
    with assms ne st False show ?thesis by (simp add: analyze_code_def)
  next
    case (Cons x xs)
    obtain best s where mx: "max_item x xs = (best, s)" by (cases "max_item x xs")
    from assms ne st Cons mx obtain fr where fr: "detect_framework re self code best = Inr fr"
      by (auto simp: analyze_code_def split: sum.splits)
    show ?thesis
    proof (cases fr)
      case None
      with assms ne st Cons mx fr False show ?thesis by (simp add: analyze_code_def)
    next
      case (Some t)
      obtain fw fc fev where "t = (fw, fc, fev)" by (cases t)
      with Some assms ne st Cons mx fr False show ?thesis by (simp add: analyze_code_def)
    qed
  qed
qed

lemma winner_facts:
  assumes "distinct (map fst (x # xs))" and "max_item x xs = (best, s)"
  shows "map_of (x # xs) best = Some s \<and> (\<forall>p\<in>set (x # xs). snd p \<le> s) \<and> (best, s) \<in> set (x # xs)"
proof -
  have m: "(best, s) \<in> set (x # xs)" using max_item_mem [of x xs] assms(2) by simp
  with assms(1) have "map_of (x # xs) best = Some s" by (simp only: map_of_eq_Some_iff)
  moreover have "\<forall>p\<in>set (x # xs). snd p \<le> s"
    using max_item_ge [of _ x xs] assms(2) by simp
  ultimately show ?thesis using m by simp
qed

lemma confidence_facts:
  assumes wf: "well_formed self" and r: "analyze_code re self code filename = Inr r"
  shows "0 \<le> confidence r \<and> confidence r \<le> 1 \<and> (language r \<noteq> ''unknown'' \<longrightarrow> 0 < confidence r)"
proof -
  from wf have d: "distinct (map fst (language_patterns self))" by (simp add: well_formed_def)
  from analyze_code_Inr [OF r]
  consider (unknown) why where "r = unknown_result why"
    | (plain) x xs le best s where "language_stage re self code filename = Inr (x # xs, le)"
        "max_item x xs = (best, s)" "confidence r = min s 1"
    | (fused) x xs le best s fw fc fev where "language_stage re self code filename = Inr (x # xs, le)"
        "max_item x xs = (best, s)" "detect_framework re self code best = Inr (Some (fw, fc, fev))"
        "confidence r = min (min s 1 + fc * 0.3) 1"
    by auto
  then show ?thesis
  proof cases
    case unknown
    then show ?thesis by (simp add: unknown_result_def)
  next
    case plain
    from language_stage_facts [OF d plain(1)] have "\<forall>p\<in>set (x # xs). 0 < snd p" by simp
    moreover have "(best, s) \<in> set (x # xs)" using max_item_mem [of x xs] plain(2) by simp
    ultimately have "0 < s" by force
    with plain(3) show ?thesis by simp
  next
    case fused
    from language_stage_facts [OF d fused(1)] have "\<forall>p\<in>set (x # xs). 0 < snd p" by simp
    moreover have "(best, s) \<in> set (x # xs)" using max_item_mem [of x xs] fused(2) by simp
    ultimately have s: "0 < s" by force
    from framework_confidence_nonneg [OF wf fused(3)] have "0 < fc" ..
    with s fused(4) show ?thesis by (simp add: min_def)
  qed
qed

subsection \<open>The unknown result\<close>







subsection \<open>The framework of the result\<close>

lemma framework_owner:
  assumes wf: "well_formed self" and r: "analyze_code re self code filename = Inr r"
    and f: "framework r = Some fw"
  shows "\<exists>rs. map_of (framework_patterns self) fw = Some rs \<and> fw_language rs = language r"
proof -
  from wf have d: "distinct (map fst (framework_patterns self))" by (simp add: well_formed_def)
  from analyze_code_Inr [OF r] f
  obtain best fc fev where df: "detect_framework re self code best = Inr (Some (fw, fc, fev))"
    and l: "language r = best"
    by (auto simp: unknown_result_def)
  from detect_framework_Some [OF wf df] obtain rs
    where "(fw, rs) \<in> set (framework_candidates re self code best)" by blast
  then have m: "(fw, rs) \<in> set (framework_patterns self)" and o: "fw_language rs = best"
    by (auto simp: framework_candidates_def)
  from d m have "map_of (framework_patterns self) fw = Some rs" by (simp only: map_of_eq_Some_iff)
  with o l show ?thesis by simp
qed

lemma framework_stage_spec:
  assumes wf: "well_formed self" and df: "detect_framework re self code lang = Inr res"
  shows "(framework_candidates re self code lang = [] \<longrightarrow> res = None)
       \<and> (framework_candidates re self code lang \<noteq> [] \<longrightarrow>
            (\<exists>fw rs. res = Some (fw, min (spec_framework_score re code rs / 5) 1,
                                 spec_framework_evidence re code rs)
               \<and> (fw, rs) \<in> set (framework_candidates re self code lang)
               \<and> (\<forall>c\<in>set (framework_candidates re self code lang).
                     spec_framework_score re code (snd c) \<le> spec_framework_score re code rs)))"
proof (cases res)
  case None
  with df have "detect_framework re self code lang = Inr None" by simp
  from detect_framework_None [OF wf this] None show ?thesis by simp
next
  case (Some t)
  obtain fw fc fev where t: "t = (fw, fc, fev)" by (cases t)
  with Some df have s: "detect_framework re self code lang = Inr (Some (fw, fc, fev))" by simp
  from detect_framework_Some [OF wf s] obtain rs
    where m: "(fw, rs) \<in> set (framework_candidates re self code lang)"
      and "fc = min (spec_framework_score re code rs / 5) 1"
      and "fev = spec_framework_evidence re code rs"
      and "\<forall>c\<in>set (framework_candidates re self code lang).
                 spec_framework_score re code (snd c) \<le> spec_framework_score re code rs"
    by blast
  with Some t show ?thesis by auto
qed

subsection \<open>The fusion of the two stages\<close>

lemma fusion:
  assumes wf: "well_formed self" and r: "analyze_code re self code filename = Inr r"
    and nb: "\<not> blank code"
    and st: "language_stage re self code filename = Inr (ls, le)" and ne: "ls \<noteq> []"
  shows "\<exists>s. map_of ls (language r) = Some s \<and> (\<forall>p\<in>set ls. snd p \<le> s)
     \<and> (framework_candidates re self code (language r) \<noteq> [] \<longrightarrow>
          (\<exists>fw fc fev. detect_framework re self code (language r) = Inr (Some (fw, fc, fev))
              \<and> framework r = Some fw
              \<and> confidence r = min (min s 1 + fc * 0.3) 1
              \<and> evidence r = dd_get le (language r) @ fev))
     \<and> (framework_candidates re self code (language r) = [] \<longrightarrow>
          framework r = None \<and> confidence r = min s 1 \<and> evidence r = dd_get le (language r))"
proof -
  from wf have d: "distinct (map fst (language_patterns self))" by (simp add: well_formed_def)
  from language_stage_facts [OF d st] have dl: "distinct (map fst ls)" by simp
  from analyze_code_Inr [OF r] nb st ne
  obtain x xs best s where ls: "ls = x # xs" and mx: "max_item x xs = (best, s)"
    and alt: "(detect_framework re self code best = Inr None
                 \<and> r = \<lparr>language = best, confidence = min s 1, framework = None,
                         evidence = dd_get le best\<rparr>)
               \<or> (\<exists>fw fc fev. detect_framework re self code best = Inr (Some (fw, fc, fev))
                     \<and> r = \<lparr>language = best, confidence = min (min s 1 + fc * 0.3) 1,
                             framework = Some fw, evidence = dd_get le best @ fev\<rparr>)"
    by auto
  from dl ls have "distinct (map fst (x # xs))" by simp
  from winner_facts [OF this mx] ls
  have w: "map_of ls best = Some s" "\<forall>p\<in>set ls. snd p \<le> s" by simp_all
  from alt show ?thesis
  proof
    assume a: "detect_framework re self code best = Inr None
                 \<and> r = \<lparr>language = best, confidence = min s 1, framework = None,
                         evidence = dd_get le best\<rparr>"
    then have "framework_candidates re self code best = []"
      using detect_framework_None [OF wf] by blast
    with a w show ?thesis by simp
  next
    assume "\<exists>fw fc fev. detect_framework re self code best = Inr (Some (fw, fc, fev))
                     \<and> r = \<lparr>language = best, confidence = min (min s 1 + fc * 0.3) 1,
                             framework = Some fw, evidence = dd_get le best @ fev\<rparr>"
    then obtain fw fc fev where df: "detect_framework re self code best = Inr (Some (fw, fc, fev))"
      and rr: "r = \<lparr>language = best, confidence = min (min s 1 + fc * 0.3) 1,
                             framework = Some fw, evidence = dd_get le best @ fev\<rparr>"
      by blast
    from detect_framework_Some [OF wf df] have "framework_candidates re self code best \<noteq> []"
      by auto
    with df rr w show ?thesis by simp
  qed
qed

subsection \<open>The extension hint\<close>






subsection \<open>The hint and the confidence\<close>


subsection \<open>Patterns that do not compile\<close>

lemma broken_pattern:
  assumes "(lang, rs) \<in> set (language_patterns self)"
    and "p \<in> set (patterns rs @ anti_patterns rs)"
    and "\<not> compiles re code p"
  shows "analyze_code re self code filename =
           (if blank code then Inr (unknown_result ''Empty code'') else Inl ReError)"
proof (cases "blank code")
  case True
  then show ?thesis by (simp add: analyze_code_blank)
next
  case False
  from assms(2,3) have "\<not> list_all (compiles re code) (patterns rs @ anti_patterns rs)"
    unfolding list_all_iff by blast
  with assms(1) have "\<not> languages_compile re code (language_patterns self)"
    unfolding languages_compile_def list_all_iff by blast
  then have "score_languages re code (language_patterns self) [] [] = Inl ReError"
    by (rule score_languages_fails)
  then have "language_stage re self code filename = Inl ReError"
    by (simp add: language_stage_def)
  with False show ?thesis by (simp add: analyze_code_def py_strip_blank)
qed

subsection \<open>The analysis returns\<close>

lemma analyze_code_returns:
  assumes "distinct (map fst (language_patterns self))"
    and "distinct (map fst (framework_patterns self))"
    and "\<And>p. compiles re code p"
  shows "\<exists>r. analyze_code re self code filename = Inr r"
proof (cases "blank code")
  case True
  then show ?thesis by (simp add: analyze_code_blank)
next
  case False
  have "languages_compile re code (language_patterns self)"
    by (simp add: languages_compile_def list_all_iff assms(3) case_prod_beta)
  then obtain ls le where st: "language_stage re self code filename = Inr (ls, le)"
    by (simp add: language_stage_eq [OF assms(1)] prod_eq_iff)
  have fc: "frameworks_compile re code lang (framework_patterns self)" for lang
    by (simp add: frameworks_compile_def list_all_iff assms(3) case_prod_beta)
  show ?thesis
  proof (cases ls)
    case Nil
    with st False show ?thesis by (simp add: analyze_code_def py_strip_blank)
  next
    case (Cons x xs)
    obtain best s where mx: "max_item x xs = (best, s)" by (cases "max_item x xs")
    from detect_framework_returns [OF assms(2) fc] obtain res
      where "detect_framework re self code best = Inr res" by blast
    with st False Cons mx show ?thesis
      by (cases res) (auto simp: analyze_code_def py_strip_blank)
  qed
qed

subsection \<open>The tables of the engine\<close>

lemma distinct_languages: "distinct (map fst initialize_patterns)"
  by (simp add: initialize_patterns_def)

lemma distinct_frameworks: "distinct (map fst initialize_framework_patterns)"
  by (simp add: initialize_framework_patterns_def)

lemma framework_weights: "list_all (\<lambda>(fw, rs). 0 < weight rs) initialize_framework_patterns"
  by (simp add: initialize_framework_patterns_def)

lemma language_names: "''unknown'' \<notin> set (map fst initialize_patterns)"
  by (simp add: initialize_patterns_def)

lemma extension_names: "[] \<notin> set (map fst initialize_extensions)"
  by (simp add: initialize_extensions_def)

lemma well_formed_init: "well_formed GuessLexer_init"
  using distinct_languages distinct_frameworks framework_weights language_names extension_names
  by (simp add: well_formed_def GuessLexer_init_def init_def)

subsection \<open>The analysis of the sample inputs\<close>

lemma py_lower_Nil: "py_lower [] = []"
  by (simp add: py_lower_def)

lemma py_lower_Cons: "py_lower (c # cs) = py_lower_char c # py_lower cs"
  by (simp add: py_lower_def)

lemmas string_eval = py_lower_Nil py_lower_Cons py_lower_char_def char_of_def bit_Suc_0_iff

lemma lower_sample_text:
  "py_lower sample_text = ''lambda malloc httpresponse httpresponse httpresponse httpresponse httpresponse httpresponse httpresponse''"
  by (simp add: sample_text_def string_eval)


lemma not_blank_sample_text: "\<not> blank sample_text"
  by (simp add: blank_def sample_text_def py_isspace_def)



lemma scores_sample_text:
  "score_languages sample_re sample_text initialize_patterns [] [] =
     Inr ([(''python'', 2 / 5), (''c'', 2 / 5)],
          [(''python'', [''Keyword found: lambda'']), (''c'', [''Keyword found: malloc''])])"
  by (simp add: initialize_patterns_def score_language_def lower_sample_text string_eval
        keyword_line_def sample_re_def re_counts_def)




lemma engine_eval:
  "language_patterns GuessLexer_init = initialize_patterns"
  "framework_patterns GuessLexer_init = initialize_framework_patterns"
  "file_extensions GuessLexer_init = initialize_extensions"
  by (simp_all add: GuessLexer_init_def init_def)

lemma frameworks_sample_python:
  "detect_framework sample_re GuessLexer_init sample_text ''python'' =
     Inr (Some (''django'', 1, [''Framework pattern: HttpResponse'', ''Framework keyword: HttpResponse'']))"
  by (simp add: detect_framework_def engine_eval initialize_framework_patterns_def
        lower_sample_text string_eval framework_keyword_line_def framework_pattern_line_def
        sample_re_def re_counts_def dd_get_def)

lemma frameworks_sample_c: "detect_framework sample_re GuessLexer_init sample_text ''c'' = Inr None"
  by (simp add: detect_framework_def engine_eval initialize_framework_patterns_def)


lemma hint_c: "extension_hint_of GuessLexer_init (Some ''x.c'') = Some ''c''"
  by (simp add: extension_hint_of_def get_extension_hint_def engine_eval
        initialize_extensions_def splitext_def rfind_def string_eval)


lemma hint_none: "extension_hint_of GuessLexer_init None = None"
  by (simp add: extension_hint_of_def)

lemma stage_sample:
  "language_stage sample_re GuessLexer_init sample_text None =
     Inr ([(''python'', 2 / 5), (''c'', 2 / 5)],
          [(''python'', [''Keyword found: lambda'']), (''c'', [''Keyword found: malloc''])])"
  using scores_sample_text
  by (simp add: language_stage_def engine_eval hint_none apply_extension_hint_def)

lemma stage_sample_hinted:
  "language_stage sample_re GuessLexer_init sample_text (Some ''x.c'') =
     Inr ([(''python'', 2 / 5), (''c'', 3 / 5)],
          [(''python'', [''Keyword found: lambda'']),
           (''c'', [''Keyword found: malloc'', ''File extension hint: x.c''])])"
  using scores_sample_text
  by (simp add: language_stage_def engine_eval hint_c apply_extension_hint_def dd_get_def
        hint_line_def)



lemma analysis_sample:
  "analyze_code sample_re GuessLexer_init sample_text None = Inr sample_result"
  using not_blank_sample_text
  by (simp add: analyze_code_def py_strip_blank stage_sample frameworks_sample_python
        sample_result_def dd_get_def)

lemma analysis_sample_hinted:
  "analyze_code sample_re GuessLexer_init sample_text (Some ''x.c'') = Inr sample_result_hinted"
  using not_blank_sample_text
  by (simp add: analyze_code_def py_strip_blank stage_sample_hinted frameworks_sample_c
        sample_result_hinted_def dd_get_def)




section \<open>The claims\<close>

lemma analyze_code_total:
  assumes "\<And>p. compiles re code p"
  shows "\<exists>r. analyze_code re GuessLexer_init code filename = Inr r"
proof -
  have "distinct (map fst (language_patterns GuessLexer_init))"
    and "distinct (map fst (framework_patterns GuessLexer_init))"
    by (simp_all add: engine_eval distinct_languages distinct_frameworks)
  from analyze_code_returns [OF this assms] show ?thesis .
qed

text \<open>
  C1. Whatever the text, the file name and the answers of the regular-expression
  library, the confidence of a result of \<^verbatim>\<open>analyze_code\<close> lies between 0 and 1.
  (By \<open>analyze_code_total\<close> there is a result whenever every pattern compiles.)
\<close>

theorem confidence_in_unit_interval:
  assumes "analyze_code re GuessLexer_init code filename = Inr r"
  shows "0 \<le> confidence r \<and> confidence r \<le> 1"
  using confidence_facts [OF well_formed_init assms] by simp

theorem confidence_in_unit_interval_witness:
  "analyze_code sample_re GuessLexer_init sample_text None = Inr sample_result
   \<and> 0 \<le> confidence sample_result \<and> confidence sample_result \<le> 1
   \<and> confidence sample_result = 7 / 10"
  using confidence_in_unit_interval [OF analysis_sample] analysis_sample
  by (simp add: sample_result_def)









text \<open>
  C5. When the result names a framework, the framework table has an entry of that name
  and the language this entry declares is the language of the result.
\<close>

theorem framework_belongs_to_language:
  assumes "analyze_code re GuessLexer_init code filename = Inr r"
    and "framework r = Some fw"
  shows "\<exists>rs. map_of (framework_patterns GuessLexer_init) fw = Some rs
              \<and> fw_language rs = language r"
  using framework_owner [OF well_formed_init assms] .

theorem framework_belongs_to_language_witness:
  "analyze_code sample_re GuessLexer_init sample_text None = Inr sample_result
   \<and> framework sample_result = Some ''django''
   \<and> language sample_result = ''python''
   \<and> (\<exists>rs. map_of (framework_patterns GuessLexer_init) ''django'' = Some rs
              \<and> fw_language rs = ''python'')"
proof -
  have f: "framework sample_result = Some ''django''" by (simp add: sample_result_def)
  have l: "language sample_result = ''python''" by (simp add: sample_result_def)
  from framework_belongs_to_language [OF analysis_sample f] l
  have "\<exists>rs. map_of (framework_patterns GuessLexer_init) ''django'' = Some rs
              \<and> fw_language rs = ''python''" by simp
  with analysis_sample f l show ?thesis by (intro conjI)
qed

text \<open>
  C6. The framework stage knows no anti-pattern: the score of a framework is
  \<open>(pattern_matches * 0.7 + keyword_matches * 0.3) * weight\<close> (the definition of
  \<open>spec_framework_score\<close>). Of the frameworks of the given language only those with a
  positive score are candidates. Without candidates the stage returns nothing; otherwise
  it returns a candidate of maximal score, with the confidence \<open>min (score / 5) 1\<close> and
  the evidence of that candidate.
\<close>

theorem framework_stage_formula:
  assumes "detect_framework re GuessLexer_init code lang = Inr res"
  shows "(framework_candidates re GuessLexer_init code lang = [] \<longrightarrow> res = None)
       \<and> (framework_candidates re GuessLexer_init code lang \<noteq> [] \<longrightarrow>
            (\<exists>fw rs. res = Some (fw, min (spec_framework_score re code rs / 5) 1,
                                 spec_framework_evidence re code rs)
               \<and> (fw, rs) \<in> set (framework_candidates re GuessLexer_init code lang)
               \<and> (\<forall>c\<in>set (framework_candidates re GuessLexer_init code lang).
                     spec_framework_score re code (snd c) \<le> spec_framework_score re code rs)))"
  using framework_stage_spec [OF well_formed_init assms] .

theorem framework_stage_formula_witness:
  "detect_framework sample_re GuessLexer_init sample_text ''python'' =
     Inr (Some (''django'', 1, [''Framework pattern: HttpResponse'', ''Framework keyword: HttpResponse'']))
   \<and> framework_candidates sample_re GuessLexer_init sample_text ''python'' \<noteq> []
   \<and> (\<exists>rs. (''django'', rs) \<in> set (framework_candidates sample_re GuessLexer_init sample_text ''python'')
            \<and> min (spec_framework_score sample_re sample_text rs / 5) 1 = 1
            \<and> spec_framework_evidence sample_re sample_text rs =
                  [''Framework pattern: HttpResponse'', ''Framework keyword: HttpResponse''])
   \<and> detect_framework sample_re GuessLexer_init sample_text ''c'' = Inr None
   \<and> framework_candidates sample_re GuessLexer_init sample_text ''c'' = []"
proof -
  note t = framework_stage_formula [OF frameworks_sample_python]
  from t have ne: "framework_candidates sample_re GuessLexer_init sample_text ''python'' \<noteq> []"
    by blast
  with t have "\<exists>rs. (''django'', rs) \<in> set (framework_candidates sample_re GuessLexer_init sample_text ''python'')
            \<and> min (spec_framework_score sample_re sample_text rs / 5) 1 = 1
            \<and> spec_framework_evidence sample_re sample_text rs =
                  [''Framework pattern: HttpResponse'', ''Framework keyword: HttpResponse'']"
    by auto
  moreover have "framework_candidates sample_re GuessLexer_init sample_text ''c'' = []"
    by (rule detect_framework_None [OF well_formed_init frameworks_sample_c])
  ultimately show ?thesis using frameworks_sample_python frameworks_sample_c ne by (intro conjI)
qed


text \<open>
  C7. Let the text be not blank and the score map \<open>ls\<close> of the language stage (after
  the hint) not empty. Then the language of the result has the greatest score \<open>s\<close> of
  the map. If a framework of that language scores positively, the framework stage
  returns a framework with a confidence \<open>fc\<close> and an evidence list, the result names
  that framework, its confidence is \<open>min (min s 1 + fc * 0.3) 1\<close>, and its evidence is
  the evidence of the language followed by that of the framework. If none does, the
  result names no framework, its confidence is \<open>min s 1\<close>, and its evidence is the
  evidence of the language.
\<close>

theorem fusion_of_stages:
  assumes "analyze_code re GuessLexer_init code filename = Inr r"
    and "\<not> blank code"
    and "language_stage re GuessLexer_init code filename = Inr (ls, le)"
    and "ls \<noteq> []"
  shows "\<exists>s. map_of ls (language r) = Some s \<and> (\<forall>p\<in>set ls. snd p \<le> s)
     \<and> (framework_candidates re GuessLexer_init code (language r) \<noteq> [] \<longrightarrow>
          (\<exists>fw fc fev.
              detect_framework re GuessLexer_init code (language r) = Inr (Some (fw, fc, fev))
              \<and> framework r = Some fw
              \<and> confidence r = min (min s 1 + fc * 0.3) 1
              \<and> evidence r = dd_get le (language r) @ fev))
     \<and> (framework_candidates re GuessLexer_init code (language r) = [] \<longrightarrow>
          framework r = None \<and> confidence r = min s 1 \<and> evidence r = dd_get le (language r))"
  using fusion [OF well_formed_init assms] .

theorem fusion_of_stages_witness:
  "analyze_code sample_re GuessLexer_init sample_text None = Inr sample_result
   \<and> \<not> blank sample_text
   \<and> language_stage sample_re GuessLexer_init sample_text None =
        Inr ([(''python'', 2 / 5), (''c'', 2 / 5)],
             [(''python'', [''Keyword found: lambda'']), (''c'', [''Keyword found: malloc''])])
   \<and> framework_candidates sample_re GuessLexer_init sample_text ''python'' \<noteq> []
   \<and> (\<exists>s. map_of [(''python'', 2 / 5 :: real), (''c'', 2 / 5)] ''python'' = Some s
          \<and> confidence sample_result = min (min s 1 + 1 * 0.3) 1)
   \<and> analyze_code sample_re GuessLexer_init sample_text (Some ''x.c'') = Inr sample_result_hinted
   \<and> language_stage sample_re GuessLexer_init sample_text (Some ''x.c'') =
        Inr ([(''python'', 2 / 5), (''c'', 3 / 5)],
             [(''python'', [''Keyword found: lambda'']),
              (''c'', [''Keyword found: malloc'', ''File extension hint: x.c''])])
   \<and> framework_candidates sample_re GuessLexer_init sample_text ''c'' = []
   \<and> (\<exists>s. map_of [(''python'', 2 / 5 :: real), (''c'', 3 / 5)] ''c'' = Some s
          \<and> confidence sample_result_hinted = min s 1)"
proof -
  have l: "language sample_result = ''python''" by (simp add: sample_result_def)
  have lh: "language sample_result_hinted = ''c''" by (simp add: sample_result_hinted_def)
  have ne: "framework_candidates sample_re GuessLexer_init sample_text ''python'' \<noteq> []"
    using detect_framework_Some [OF well_formed_init frameworks_sample_python] by auto
  have e: "framework_candidates sample_re GuessLexer_init sample_text ''c'' = []"
    by (rule detect_framework_None [OF well_formed_init frameworks_sample_c])
  have a: "\<exists>s. map_of [(''python'', 2 / 5 :: real), (''c'', 2 / 5)] ''python'' = Some s
          \<and> confidence sample_result = min (min s 1 + 1 * 0.3) 1"
    using fusion_of_stages [OF analysis_sample not_blank_sample_text stage_sample] ne
      frameworks_sample_python
    by (auto simp: l)
  have b: "\<exists>s. map_of [(''python'', 2 / 5 :: real), (''c'', 3 / 5)] ''c'' = Some s
          \<and> confidence sample_result_hinted = min s 1"
    using fusion_of_stages [OF analysis_sample_hinted not_blank_sample_text stage_sample_hinted] e
    by (auto simp: lh)
  from analysis_sample not_blank_sample_text stage_sample ne a analysis_sample_hinted
    stage_sample_hinted e b
  show ?thesis by (intro conjI)
qed



text \<open>
  C9, as the specification states it, fails: the constructor validates nothing. An
  engine built from a table that holds the malformed pattern \<^verbatim>\<open>(\<close> exists and answers
  a blank text; only the analysis of a text that is not blank raises the error of the
  regular-expression library.
\<close>

theorem malformed_pattern_accepted_by_constructor:
  "language_patterns (init broken_patterns [] []) = broken_patterns
   \<and> \<not> compiles (re_rejecting [''('']) ''a'' ''(''
   \<and> analyze_code (re_rejecting [''('']) (init broken_patterns [] []) '' '' None =
        Inr \<lparr>language = ''unknown'', confidence = 0, framework = None,
             evidence = [''Empty code'']\<rparr>
   \<and> analyze_code (re_rejecting [''('']) (init broken_patterns [] []) ''a'' None = Inl ReError"
  by (simp add: init_def broken_patterns_def compiles_def re_rejecting_def analyze_code_def
        py_strip_def py_isspace_def language_stage_def score_language_def unknown_result_def)

text \<open>
  C9, amended. The constructor stores the tables as they are and cannot fail. When a
  pattern or an anti-pattern of the language table does not compile, the analysis of
  every text that is not blank raises the error of the regular-expression library, and
  the analysis of a blank text returns the \<^verbatim>\<open>unknown\<close> result as usual.
\<close>

theorem malformed_pattern_raises_at_analysis:
  assumes "(lang, rs) \<in> set lp"
    and "p \<in> set (patterns rs @ anti_patterns rs)"
    and "\<not> compiles re code p"
  shows "language_patterns (init lp fp fe) = lp
     \<and> analyze_code re (init lp fp fe) code filename =
          (if blank code
           then Inr \<lparr>language = ''unknown'', confidence = 0, framework = None,
                     evidence = [''Empty code'']\<rparr>
           else Inl ReError)"
proof -
  have l: "language_patterns (init lp fp fe) = lp" by (simp add: init_def)
  with assms(1) have "(lang, rs) \<in> set (language_patterns (init lp fp fe))" by simp
  from broken_pattern [OF this assms(2,3), of filename] l show ?thesis
    by (simp add: unknown_result_def)
qed

theorem malformed_pattern_raises_at_analysis_witness:
  "(''x'', \<lparr>key_words = [], patterns = [''(''], weight = 1.0, anti_patterns = []\<rparr>)
      \<in> set broken_patterns
   \<and> ''('' \<in> set (patterns \<lparr>key_words = [], patterns = [''(''], weight = 1.0, anti_patterns = []\<rparr>
                    @ anti_patterns \<lparr>key_words = [], patterns = [''(''], weight = 1.0, anti_patterns = []\<rparr>)
   \<and> \<not> compiles (re_rejecting [''('']) ''a'' ''(''
   \<and> \<not> blank ''a''
   \<and> analyze_code (re_rejecting [''('']) (init broken_patterns [] []) ''a'' None = Inl ReError"
proof -
  let ?rs = "\<lparr>key_words = [], patterns = [''(''], weight = 1.0, anti_patterns = []\<rparr>"
  have m: "(''x'', ?rs) \<in> set broken_patterns" by (simp add: broken_patterns_def)
  have p: "''('' \<in> set (patterns ?rs @ anti_patterns ?rs)" by simp
  have n: "\<not> compiles (re_rejecting [''('']) ''a'' ''(''"
    by (simp add: compiles_def re_rejecting_def)
  have b: "\<not> blank ''a''" by (simp add: blank_def py_isspace_def)
  from malformed_pattern_raises_at_analysis [OF m p n, of "[]" "[]" None] b
  have "analyze_code (re_rejecting [''('']) (init broken_patterns [] []) ''a'' None = Inl ReError"
    by simp
  with m p n b show ?thesis by (intro conjI)
qed

text \<open>
  C10. A result whose language is not \<^verbatim>\<open>unknown\<close> has a confidence above zero.
\<close>

theorem detected_language_has_positive_confidence:
  assumes "analyze_code re GuessLexer_init code filename = Inr r"
    and "language r \<noteq> ''unknown''"
  shows "0 < confidence r"
  using confidence_facts [OF well_formed_init assms(1)] assms(2) by simp

theorem detected_language_has_positive_confidence_witness:
  "analyze_code sample_re GuessLexer_init sample_text (Some ''x.c'') = Inr sample_result_hinted
   \<and> language sample_result_hinted \<noteq> ''unknown''
   \<and> 0 < confidence sample_result_hinted"
proof -
  have l: "language sample_result_hinted \<noteq> ''unknown''" by (simp add: sample_result_hinted_def)
  from detected_language_has_positive_confidence [OF analysis_sample_hinted l]
    analysis_sample_hinted l
  show ?thesis by (intro conjI)
qed

end
